theory Spec2Isabelle
  imports Complex_Main "HOL-Library.Log_Nat"
begin

section \<open>Tables, cells and the object store\<close>

text \<open>
  A Python \<open>str\<close> whose code points are below 256 is the list of those code points
  (\<^typ>\<open>string\<close>). A pandas cell is null (\<open>None\<close>, \<open>NaN\<close>, \<open>NaT\<close>), a number,
  a string or a timestamp counted in days. A row maps column names to cells; a
  \<open>DataFrame\<close> is its ordered column names, the dtype of every column and its
  rows in order.
\<close>

datatype cell = Null | Num rat | Str string | Date int

datatype dtype = Int64 | Float64 | Bool | Object | Datetime64

type_synonym row = "string \<rightharpoonup> cell"

record dataframe =
  columns :: "string list"
  dtypes :: "string \<rightharpoonup> dtype"
  rows :: "row list"

text \<open>\<open>pd.DataFrame()\<close>: no column and no row.\<close>

definition empty_DataFrame :: dataframe where
  "empty_DataFrame = \<lparr>columns = [], dtypes = Map.empty, rows = []\<rparr>"

text \<open>\<open>df.empty\<close>: one of the two axes has length 0.\<close>

definition df_empty :: "dataframe \<Rightarrow> bool" where
  "df_empty df = (rows df = [] \<or> columns df = [])"

text \<open>
  Frames are objects: a variable holds an address, and the store maps every address
  to the frame found there. \<open>next_free\<close> is the first address never handed out.
\<close>

type_synonym addr = nat

record store =
  objs :: "addr \<Rightarrow> dataframe"
  next_free :: addr

definition alloc :: "store \<Rightarrow> dataframe \<Rightarrow> addr \<times> store" where
  "alloc st df = (next_free st, st\<lparr>objs := (objs st)(next_free st := df), next_free := Suc (next_free st)\<rparr>)"

text \<open>\<open>df.copy()\<close>: a new object with the same columns and cells.\<close>

definition df_copy :: "store \<Rightarrow> addr \<Rightarrow> addr \<times> store" where
  "df_copy st a = alloc st (objs st a)"

text \<open>
  \<open>df[c] = v\<close> with a scalar \<open>v\<close>, in place: every row gets \<open>v\<close> under \<open>c\<close>; a name
  that is not yet a column is appended to the columns. The scalars assigned here are
  strings, so the column's dtype is \<open>object\<close>.
\<close>

definition set_column_scalar :: "dataframe \<Rightarrow> string \<Rightarrow> cell \<Rightarrow> dataframe" where
  "set_column_scalar df c v =
     df\<lparr>columns := (if c \<in> set (columns df) then columns df else columns df @ [c]),
        dtypes := (dtypes df)(c \<mapsto> Object),
        rows := map (\<lambda>r. r(c \<mapsto> v)) (rows df)\<rparr>"

text \<open>\<open>df.loc[mask, c] = v\<close> on an existing column, in place.\<close>

definition loc_assign :: "dataframe \<Rightarrow> bool list \<Rightarrow> string \<Rightarrow> cell \<Rightarrow> dataframe" where
  "loc_assign df msk c v =
     df\<lparr>rows := map (\<lambda>(r, m). if m then r(c \<mapsto> v) else r) (zip (rows df) msk)\<rparr>"

definition update_obj :: "store \<Rightarrow> addr \<Rightarrow> (dataframe \<Rightarrow> dataframe) \<Rightarrow> store" where
  "update_obj st a f = st\<lparr>objs := (objs st)(a := f (objs st a))\<rparr>"

section \<open>Strings\<close>

text \<open>\<open>str.strip()\<close>: the white space of Python among the code points below 256.\<close>

definition py_isspace :: "char \<Rightarrow> bool" where
  "py_isspace c =
     (let n = (of_char c :: nat)
      in (9 \<le> n \<and> n \<le> 13) \<or> (28 \<le> n \<and> n \<le> 32) \<or> n = 133 \<or> n = 160)"

definition py_strip :: "string \<Rightarrow> string" where
  "py_strip s = rev (dropWhile py_isspace (rev (dropWhile py_isspace s)))"

section \<open>Duplicate Detector\<close>

text \<open>
  \<open>DataFrame.duplicated(subset, keep)\<close>. The key of a row is the tuple of its cells
  under the subset columns. With \<open>keep='first'\<close> a row is marked when an earlier row
  has its key; with \<open>keep=False\<close> when any other row has it.
\<close>

definition key_of :: "string list \<Rightarrow> row \<Rightarrow> cell option list" where
  "key_of cols r = map r cols"

definition duplicated_first :: "'k list \<Rightarrow> bool list" where
  "duplicated_first ks = map (\<lambda>i. list_ex (\<lambda>j. ks ! j = ks ! i) [0..<i]) [0..<length ks]"

definition duplicated_all :: "'k list \<Rightarrow> bool list" where
  "duplicated_all ks =
     map (\<lambda>i. list_ex (\<lambda>j. j \<noteq> i \<and> ks ! j = ks ! i) [0..<length ks]) [0..<length ks]"

definition duplicated :: "dataframe \<Rightarrow> string list \<Rightarrow> bool \<Rightarrow> bool list" where
  "duplicated df cols keep_first =
     (let ks = map (key_of cols) (rows df)
      in if keep_first then duplicated_first ks else duplicated_all ks)"

text \<open>
  The table \<open>Check_duplicates\<close> of the parameter file has one column per category, the
  names of its key fields; \<open>.get(category, pd.Series())\<close> is the empty list for a
  category without a column. Lines 639 and 642 of \<open>file_handler.py\<close>.
\<close>

type_synonym check_duplicates_params = "string \<rightharpoonup> string list"

definition configured_fields :: "check_duplicates_params \<Rightarrow> string \<Rightarrow> string list" where
  "configured_fields params category =
     map py_strip (case params category of None \<Rightarrow> [] | Some l \<Rightarrow> l)"

definition criteria_columns :: "check_duplicates_params \<Rightarrow> dataframe \<Rightarrow> string \<Rightarrow> string list" where
  "criteria_columns params df category =
     (let lst_Criteriacolumns = configured_fields params category;
          present = filter (\<lambda>col. col \<in> set (columns df)) lst_Criteriacolumns
      in if present = [] then columns df else present)"

definition Duplicate_Status :: string where
  "Duplicate_Status = ''Duplicate Status''"

definition NO_duplicates :: cell where "NO_duplicates = Str ''NO duplicates''"
definition HAS_duplicates :: cell where "HAS_duplicates = Str ''HAS duplicates''"
definition IS_duplicate :: cell where "IS_duplicate = Str ''IS duplicate''"

text \<open>
  \<open>fn_check_duplicatedrecords\<close>, lines 631 to 651: the argument is the address of
  the caller's frame, the result the address of the returned frame and the store
  after the call.
\<close>

definition fn_check_duplicatedrecords ::
  "check_duplicates_params \<Rightarrow> store \<Rightarrow> addr \<Rightarrow> string \<Rightarrow> addr \<times> store" where
  "fn_check_duplicatedrecords params st df_dataset str_datasetcategory =
     (if df_empty (objs st df_dataset) then alloc st empty_DataFrame
      else
        let (df_mydataset, st1) = df_copy st df_dataset;
            lst_Criteriacolumns = criteria_columns params (objs st1 df_mydataset) str_datasetcategory;
            var_duplicate_mask = duplicated (objs st1 df_mydataset) lst_Criteriacolumns True;
            var_all_duplicates_mask = duplicated (objs st1 df_mydataset) lst_Criteriacolumns False;
            st2 = update_obj st1 df_mydataset (\<lambda>df. set_column_scalar df Duplicate_Status NO_duplicates);
            st3 = update_obj st2 df_mydataset
                    (\<lambda>df. loc_assign df (map (\<lambda>(a, d). a \<and> \<not> d) (zip var_all_duplicates_mask var_duplicate_mask))
                            Duplicate_Status HAS_duplicates);
            st4 = update_obj st3 df_mydataset
                    (\<lambda>df. loc_assign df var_duplicate_mask Duplicate_Status IS_duplicate)
        in (df_mydataset, st4))"

text \<open>The frame a call returns.\<close>

definition detect :: "check_duplicates_params \<Rightarrow> store \<Rightarrow> addr \<Rightarrow> string \<Rightarrow> dataframe" where
  "detect params st a category =
     (case fn_check_duplicatedrecords params st a category of (a', st') \<Rightarrow> objs st' a')"


text \<open>
  The key tuples of the rows of a frame under the resolved key columns, the rows (by
  position, in input order) that share the key of row \<open>i\<close>, and the status the two
  masks give to row \<open>i\<close>.
\<close>

definition keys_of :: "check_duplicates_params \<Rightarrow> dataframe \<Rightarrow> string \<Rightarrow> cell option list list" where
  "keys_of params df category = map (key_of (criteria_columns params df category)) (rows df)"

definition group_of :: "'k list \<Rightarrow> nat \<Rightarrow> nat list" where
  "group_of ks i = filter (\<lambda>j. ks ! j = ks ! i) [0..<length ks]"

definition status_at :: "'k list \<Rightarrow> nat \<Rightarrow> cell" where
  "status_at ks i =
     (if duplicated_first ks ! i then IS_duplicate
      else if duplicated_all ks ! i then HAS_duplicates else NO_duplicates)"

text \<open>A parameter table, a frame of three invoices and a store that holds it at address 0.\<close>

definition ex_params :: check_duplicates_params where
  "ex_params = [''SALES'' \<mapsto> ['' INVOICE '', ''MISSING''], ''BANK'' \<mapsto> [''IBAN'']]"

definition ex_frame :: dataframe where
  "ex_frame = \<lparr>columns = [''INVOICE'', ''AMOUNT''],
               dtypes = [''INVOICE'' \<mapsto> Object, ''AMOUNT'' \<mapsto> Float64],
               rows = [[''INVOICE'' \<mapsto> Str ''A1'', ''AMOUNT'' \<mapsto> Num 10],
                       [''INVOICE'' \<mapsto> Str ''A2'', ''AMOUNT'' \<mapsto> Num 10],
                       [''INVOICE'' \<mapsto> Str ''A1'', ''AMOUNT'' \<mapsto> Num 30]]\<rparr>"

definition ex_store :: store where
  "ex_store = \<lparr>objs = (\<lambda>_. empty_DataFrame)(0 := ex_frame), next_free = 1\<rparr>"

text \<open>A frame that already has a column \<open>Duplicate Status\<close>, at address 0 of its store.\<close>

definition ex_tagged_frame :: dataframe where
  "ex_tagged_frame = \<lparr>columns = [''INVOICE'', ''Duplicate Status''],
               dtypes = [''INVOICE'' \<mapsto> Object, ''Duplicate Status'' \<mapsto> Object],
               rows = [[''INVOICE'' \<mapsto> Str ''A1'', ''Duplicate Status'' \<mapsto> Str ''checked'']]\<rparr>"

definition ex_tagged_store :: store where
  "ex_tagged_store = \<lparr>objs = (\<lambda>_. empty_DataFrame)(0 := ex_tagged_frame), next_free = 1\<rparr>"

section \<open>Errors\<close>

text \<open>The exceptions of Python that the modelled functions can raise.\<close>

datatype py_error = KeyError | TypeError | ValueError | OverflowError | AttributeError

text \<open>The results of a loop that stops at the first exception.\<close>

fun collect :: "('e + 'a) list \<Rightarrow> 'e + 'a list" where
  "collect [] = Inr []"
| "collect (Inl e # _) = Inl e"
| "collect (Inr x # xs) = (case collect xs of Inl e \<Rightarrow> Inl e | Inr ys \<Rightarrow> Inr (x # ys))"

section \<open>Sign exchange\<close>








section \<open>Python values, numbers and dates\<close>

text \<open>
  A \<open>float\<close> is a finite value, an infinity or \<open>NaN\<close>. A \<open>datetime\<close> is its
  proleptic Gregorian ordinal (\<open>toordinal()\<close>: 1 is 0001-01-01) and the microseconds
  since midnight. The values a cell hands to the date parser: \<open>None\<close>, \<open>NaT\<close>, a
  float, an int, a string, a datetime.
\<close>

datatype pyfloat = Finite rat | PosInf | NegInf | NaN

datatype datetime = Datetime (dt_ordinal: int) (dt_micros: nat)

datatype pyval = PyNone | PyNaT | PyFloat pyfloat | PyInt int | PyStr string | PyDatetime datetime

text \<open>The calendar of the module \<open>datetime\<close>: \<open>_is_leap\<close>, \<open>_days_before_year\<close>,
  \<open>_days_in_month\<close>, \<open>_days_before_month\<close>, \<open>_ymd2ord\<close>.\<close>

definition is_leap :: "int \<Rightarrow> bool" where
  "is_leap y = (y mod 4 = 0 \<and> (y mod 100 \<noteq> 0 \<or> y mod 400 = 0))"

definition days_before_year :: "int \<Rightarrow> int" where
  "days_before_year y = (y - 1) * 365 + (y - 1) div 4 - (y - 1) div 100 + (y - 1) div 400"

definition days_in_month :: "int \<Rightarrow> int \<Rightarrow> int" where
  "days_in_month y m =
     (if m = 2 \<and> is_leap y then 29
      else [31, 28, 31, 30, 31, 30, 31, 31, 30, 31, 30, 31] ! nat (m - 1))"

definition days_before_month :: "int \<Rightarrow> int \<Rightarrow> int" where
  "days_before_month y m =
     [0, 31, 59, 90, 120, 151, 181, 212, 243, 273, 304, 334] ! nat (m - 1)
       + (if 2 < m \<and> is_leap y then 1 else 0)"

definition ymd2ord :: "int \<Rightarrow> int \<Rightarrow> int \<Rightarrow> int" where
  "ymd2ord y m d = days_before_year y + days_before_month y m + d"

text \<open>\<open>datetime(y, m, d)\<close>: \<open>ValueError\<close> for a date that does not exist.\<close>

definition py_datetime :: "int \<Rightarrow> int \<Rightarrow> int \<Rightarrow> py_error + datetime" where
  "py_datetime y m d =
     (if 1 \<le> y \<and> y \<le> 9999 \<and> 1 \<le> m \<and> m \<le> 12 \<and> 1 \<le> d \<and> d \<le> days_in_month y m
      then Inr (Datetime (ymd2ord y m d) 0) else Inl ValueError)"

text \<open>
  \<open>dt + timedelta(days=n)\<close>: a \<open>timedelta\<close> holds at most 999999999 days, and the sum
  has to be a date from 0001-01-01 (ordinal 1) to 9999-12-31 (ordinal 3652059); both
  failures are \<open>OverflowError\<close>.
\<close>

definition add_days :: "datetime \<Rightarrow> int \<Rightarrow> py_error + datetime" where
  "add_days dt n =
     (if 999999999 < \<bar>n\<bar> then Inl OverflowError
      else if 1 \<le> dt_ordinal dt + n \<and> dt_ordinal dt + n \<le> 3652059
           then Inr (Datetime (dt_ordinal dt + n) (dt_micros dt))
           else Inl OverflowError)"

text \<open>
  The double nearest to a natural number, ties to even; the value \<open>2 ^ 1024\<close> stands
  for a number too large for a double.
\<close>

definition round_to_double :: "nat \<Rightarrow> nat" where
  "round_to_double a =
     (if a < 2 ^ 53 then a
      else let e = nat (bitlen (int a)) - 53;
               q = a div 2 ^ e;
               r = a mod 2 ^ e;
               h = 2 ^ (e - 1)
           in (if h < r \<or> (r = h \<and> odd q) then q + 1 else q) * 2 ^ e)"

text \<open>\<open>float(n)\<close> for an int: \<open>OverflowError\<close> when \<open>n\<close> is too large.\<close>

definition py_float_of_int :: "int \<Rightarrow> py_error + pyfloat" where
  "py_float_of_int n =
     (let m = round_to_double (nat \<bar>n\<bar>)
      in if 2 ^ 1024 \<le> m then Inl OverflowError else Inr (Finite (of_int (sgn n * int m))))"

text \<open>\<open>int(x)\<close> for a float: towards zero.\<close>

definition py_int_of_float :: "pyfloat \<Rightarrow> py_error + int" where
  "py_int_of_float x =
     (case x of
        Finite q \<Rightarrow> Inr (if 0 \<le> q then \<lfloor>q\<rfloor> else \<lceil>q\<rceil>)
      | PosInf \<Rightarrow> Inl OverflowError
      | NegInf \<Rightarrow> Inl OverflowError
      | NaN \<Rightarrow> Inl ValueError)"

text \<open>
  Digits. \<open>str.isdigit()\<close> also accepts the superscripts two, three and one (code points
  178, 179, 185); \<open>float\<close> does not and raises \<open>ValueError\<close> for them. \<open>float\<close> of a
  string of decimal digits never raises: a number too large is \<open>inf\<close>.
\<close>

definition is_ascii_digit :: "char \<Rightarrow> bool" where
  "is_ascii_digit c = (48 \<le> (of_char c :: nat) \<and> (of_char c :: nat) \<le> 57)"

definition py_isdigit :: "string \<Rightarrow> bool" where
  "py_isdigit s =
     (s \<noteq> [] \<and> list_all (\<lambda>c. is_ascii_digit c \<or> (of_char c :: nat) \<in> {178, 179, 185}) s)"

definition nat_of_digits :: "string \<Rightarrow> nat" where
  "nat_of_digits s = foldl (\<lambda>a c. 10 * a + ((of_char c :: nat) - 48)) 0 s"

definition py_float_of_digits :: "string \<Rightarrow> py_error + pyfloat" where
  "py_float_of_digits s =
     (if list_all is_ascii_digit s
      then (let m = round_to_double (nat_of_digits s)
            in Inr (if 2 ^ 1024 \<le> m then PosInf else Finite (of_nat m)))
      else Inl ValueError)"

text \<open>\<open>str(i)\<close> of an int, and \<open>int(s)\<close> of a string in that form.\<close>

fun dec_digits :: "nat \<Rightarrow> string" where
  "dec_digits n =
     (if n < 10 then [char_of (48 + n)] else dec_digits (n div 10) @ [char_of (48 + n mod 10)])"

declare dec_digits.simps [simp del]

definition py_str_int :: "int \<Rightarrow> string" where
  "py_str_int i = (if i < 0 then CHR ''-'' # dec_digits (nat (- i)) else dec_digits (nat i))"

definition py_int_str :: "string \<Rightarrow> py_error + int" where
  "py_int_str s =
     (case s of
        [] \<Rightarrow> Inl ValueError
      | c # ds \<Rightarrow>
          if c = CHR ''-''
          then (if ds \<noteq> [] \<and> list_all is_ascii_digit ds then Inr (- int (nat_of_digits ds))
                else Inl ValueError)
          else (if list_all is_ascii_digit s then Inr (int (nat_of_digits s)) else Inl ValueError))"

section \<open>Month names\<close>

text \<open>Word characters of \<open>re\<close> (\<open>\w\<close>: \<open>str.isalnum()\<close> or the underscore) and the
  two cases of a character, for the code points below 256. The capitals of code points
  181 and 255 are above 255 and that of 223 is \<open>SS\<close>.\<close>

definition py_isword :: "char \<Rightarrow> bool" where
  "py_isword c =
     (let n = (of_char c :: nat)
      in (48 \<le> n \<and> n \<le> 57) \<or> (65 \<le> n \<and> n \<le> 90) \<or> n = 95 \<or> (97 \<le> n \<and> n \<le> 122)
         \<or> n = 170 \<or> n = 178 \<or> n = 179 \<or> n = 181 \<or> n = 185 \<or> n = 186
         \<or> (188 \<le> n \<and> n \<le> 190) \<or> (192 \<le> n \<and> n \<le> 214) \<or> (216 \<le> n \<and> n \<le> 246)
         \<or> 248 \<le> n)"

definition py_lower_char :: "char \<Rightarrow> char" where
  "py_lower_char c =
     (let n = (of_char c :: nat)
      in if (65 \<le> n \<and> n \<le> 90) \<or> (192 \<le> n \<and> n \<le> 222 \<and> n \<noteq> 215) then char_of (n + 32) else c)"

definition py_upper :: "string \<Rightarrow> string" where
  "py_upper s =
     concat (map (\<lambda>c. let n = (of_char c :: nat)
                      in if (97 \<le> n \<and> n \<le> 122) \<or> (224 \<le> n \<and> n \<le> 254 \<and> n \<noteq> 247)
                         then [char_of (n - 32)]
                         else if n = 223 then ''SS'' else [c]) s)"

text \<open>\<open>dic_month_map\<close>, lines 1229 to 1242, in the order of the source.\<close>

definition dic_month_map :: "(string \<times> string) list" where
  "dic_month_map =
    [(''Jan'', ''01''), (''January'', ''01''), (''JANUARY'', ''01''), (''JAN'', ''01''),
     (''MUTARAMA'', ''01''),
     (''Feb'', ''02''), (''Februar'', ''02''), (''February'', ''02''),
     (''F'' @ [CHR 0xE9] @ ''vrier'', ''02''), (''F'' @ [CHR 0xE9] @ ''v'', ''02''),
     (''Fev'', ''02''), (''Febrero'', ''02''), (''FEB'', ''02''), (''FEBRUARY'', ''02''),
     (''F'' @ [CHR 0xC9] @ ''VRIER'', ''02''), (''F'' @ [CHR 0xC9] @ ''V'', ''02''),
     (''FEV'', ''02''), (''FEBRERO'', ''02''), (''FEBRUAR'', ''02''), (''GASHYANTARE'', ''02''),
     (''Mar'', ''03''), (''March'', ''03''), (''M'' @ [CHR 0xE4] @ ''rz'', ''03''),
     (''Mars'', ''03''), (''Marzo'', ''03''), (''MAR'', ''03''), (''MARCH'', ''03''),
     (''M'' @ [CHR 0xC4] @ ''RZ'', ''03''), (''MARS'', ''03''), (''MARZO'', ''03''),
     (''WERURWE'', ''03''),
     (''Apr'', ''04''), (''April'', ''04''), (''Avril'', ''04''), (''Abril'', ''04''),
     (''APR'', ''04''), (''APRIL'', ''04''), (''AVRIL'', ''04''), (''ABRIL'', ''04''),
     (''MATA'', ''04''),
     (''May'', ''05''), (''Mai'', ''05''), (''Mayo'', ''05''), (''MAY'', ''05''),
     (''MAI'', ''05''), (''MAYO'', ''05''), (''GICURASI'', ''05''),
     (''Jun'', ''06''), (''June'', ''06''), (''Juni'', ''06''), (''Juin'', ''06''),
     (''Junio'', ''06''), (''JUN'', ''06''), (''JUNE'', ''06''), (''JUNI'', ''06''),
     (''JUIN'', ''06''), (''JUNIO'', ''06''), (''KAMENA'', ''06''),
     (''Jul'', ''07''), (''July'', ''07''), (''Juli'', ''07''), (''Juillet'', ''07''),
     (''Julio'', ''07''), (''JUL'', ''07''), (''JULY'', ''07''), (''JULI'', ''07''),
     (''JUILLET'', ''07''), (''JULIO'', ''07''), (''NYAKANGA'', ''07''),
     (''Aug'', ''08''), (''August'', ''08''), (''Ao'' @ [CHR 0xFB] @ ''t'', ''08''),
     (''Agosto'', ''08''), (''Aou'', ''08''), (''AUG'', ''08''), (''AUGUST'', ''08''),
     (''AO'' @ [CHR 0xDB] @ ''T'', ''08''), (''AGOSTO'', ''08''), (''KANAMA'', ''08''),
     (''Sep'', ''09''), (''September'', ''09''), (''Septembre'', ''09''), (''Sept'', ''09''),
     (''Setiembre'', ''09''), (''Septiembre'', ''09''), (''SEP'', ''09''),
     (''SEPTEMBER'', ''09''), (''SEPTEMBRE'', ''09''), (''SEPT'', ''09''),
     (''SETIEMBRE'', ''09''), (''SEPTIEMBRE'', ''09''), (''NZERI'', ''09''), (''NZELI'', ''09''),
     (''Oct'', ''10''), (''October'', ''10''), (''Oktober'', ''10''), (''Octobre'', ''10''),
     (''Octubre'', ''10''), (''OCT'', ''10''), (''OCTOBER'', ''10''), (''OKTOBER'', ''10''),
     (''OCTOBRE'', ''10''), (''OCTUBRE'', ''10''), (''UKWAKIRA'', ''10''),
     (''Nov'', ''11''), (''November'', ''11''), (''Novembre'', ''11''), (''Noviembre'', ''11''),
     (''NOV'', ''11''), (''NOVEMBER'', ''11''), (''NOVEMBRE'', ''11''), (''NOVIEMBRE'', ''11''),
     (''UGUSHYINGO'', ''11''),
     (''Dec'', ''12''), (''December'', ''12''), (''Dezember'', ''12''),
     (''D'' @ [CHR 0xE9] @ ''cembre'', ''12''), (''Diciembre'', ''12''),
     (''D'' @ [CHR 0xE9] @ ''c'', ''12''), (''Dez'', ''12''), (''DIC'', ''12''),
     (''DEC'', ''12''), (''DECEMBER'', ''12''), (''DEZEMBER'', ''12''),
     (''D'' @ [CHR 0xC9] @ ''CEMBRE'', ''12''), (''D'' @ [CHR 0xC9] @ ''C'', ''12''),
     (''DEZ'', ''12''), (''DICIEMBRE'', ''12''), (''UKUBOZA'', ''12'')]"

text \<open>
  \<open>month_pattern\<close> is \<open>\b(k1|k2|...)\b\<close> over the keys, compiled with
  \<open>re.IGNORECASE\<close>. Every key is made of word characters only, so a match starts
  after and ends before a character that is not one: it is a whole maximal run of word
  characters that equals a key up to case. \<open>runs\<close> cuts a string into its maximal runs
  of word characters and of other characters, in order.
\<close>

fun runs :: "string \<Rightarrow> string list" where
  "runs [] = []"
| "runs (c # cs) =
     (case runs cs of
        [] \<Rightarrow> [[c]]
      | r # rs \<Rightarrow> if py_isword c = py_isword (hd r) then (c # r) # rs else [c] # r # rs)"

definition ignorecase_eq :: "string \<Rightarrow> string \<Rightarrow> bool" where
  "ignorecase_eq w k = (map py_lower_char w = map py_lower_char k)"

text \<open>The replacement of one match: \<open>dic_month_map[x.group().upper()]\<close>.\<close>

definition month_repl :: "string \<Rightarrow> py_error + string" where
  "month_repl r =
     (if list_ex (ignorecase_eq r) (map fst dic_month_map)
      then (case map_of dic_month_map (py_upper r) of None \<Rightarrow> Inl KeyError | Some v \<Rightarrow> Inr v)
      else Inr r)"

text \<open>\<open>fn_replace_months\<close>, lines 1248 and 1249.\<close>

definition fn_replace_months :: "string \<Rightarrow> py_error + string" where
  "fn_replace_months dte_mydate =
     (case collect (map month_repl (runs dte_mydate)) of
        Inl e \<Rightarrow> Inl e
      | Inr rs \<Rightarrow> Inr (concat rs))"

section \<open>Date parser\<close>

text \<open>
  \<open>datetime.strptime\<close> is a parameter: \<open>None\<close> is its \<open>ValueError\<close>. The list of
  formats is the column \<open>Dates formats\<close> of the parameter file. The loop of lines 1275
  to 1285 returns the first date a format gives, and the string it tried when none does.
\<close>

type_synonym strptime = "string \<Rightarrow> string \<Rightarrow> datetime option"

fun try_formats :: "strptime \<Rightarrow> string list \<Rightarrow> string \<Rightarrow> pyval" where
  "try_formats strptime [] dte_mydate = PyStr dte_mydate"
| "try_formats strptime (str_myformat # fs) dte_mydate =
     (case strptime (py_strip dte_mydate) (py_strip str_myformat) of
        Some d \<Rightarrow> PyDatetime d
      | None \<Rightarrow> try_formats strptime fs dte_mydate)"

text \<open>Lines 1269 to 1285, on the string \<open>str(dte_mydate)\<close>.\<close>

definition parse_with_formats :: "strptime \<Rightarrow> string list \<Rightarrow> string \<Rightarrow> py_error + pyval" where
  "parse_with_formats strptime lst_dates_regex s =
     (case fn_replace_months s of
        Inl e \<Rightarrow> Inl e
      | Inr dte_mydate \<Rightarrow> Inr (try_formats strptime lst_dates_regex dte_mydate))"

text \<open>Lines 1263 to 1266, from the value of \<open>float(dte_mydate)\<close>.\<close>

definition serial_or_formats ::
  "strptime \<Rightarrow> string list \<Rightarrow> py_error + pyfloat \<Rightarrow> py_error + pyval" where
  "serial_or_formats strptime lst_dates_regex fl =
     (case fl of
        Inl e \<Rightarrow> Inl e
      | Inr f \<Rightarrow>
         (case py_int_of_float f of
            Inl e \<Rightarrow> Inl e
          | Inr i \<Rightarrow>
             (let dte_mydate = py_str_int i
              in case py_int_str dte_mydate of
                   Inl e \<Rightarrow> Inl e
                 | Inr n \<Rightarrow>
                     if n < 2958466
                     then (case py_datetime 1899 12 30 of
                             Inl e \<Rightarrow> Inl e
                           | Inr d0 \<Rightarrow>
                              (case add_days d0 n of
                                 Inl e \<Rightarrow> Inl e
                               | Inr d \<Rightarrow> Inr (PyDatetime d)))
                     else parse_with_formats strptime lst_dates_regex dte_mydate)))"

text \<open>
  \<open>fn_parse_dates_multipleformats\<close>, lines 1253 to 1285; one equation for each type of
  the argument that \<open>isinstance\<close> and \<open>pd.isna\<close> tell apart.
\<close>

fun fn_parse_dates_multipleformats :: "strptime \<Rightarrow> string list \<Rightarrow> pyval \<Rightarrow> py_error + pyval" where
  "fn_parse_dates_multipleformats strptime fmts (PyDatetime d) = Inr (PyDatetime d)"
| "fn_parse_dates_multipleformats strptime fmts PyNone = Inr PyNone"
| "fn_parse_dates_multipleformats strptime fmts PyNaT = Inr PyNaT"
| "fn_parse_dates_multipleformats strptime fmts (PyFloat f) =
     (if f = NaN then Inr (PyFloat f) else serial_or_formats strptime fmts (Inr f))"
| "fn_parse_dates_multipleformats strptime fmts (PyInt n) =
     serial_or_formats strptime fmts (py_float_of_int n)"
| "fn_parse_dates_multipleformats strptime fmts (PyStr s) =
     (if s \<in> {'''', ''NaN'', ''NaT''} then Inr (PyStr s)
      else if py_isdigit s then serial_or_formats strptime fmts (py_float_of_digits s)
      else parse_with_formats strptime fmts s)"

text \<open>The integer value of an int, of a finite float and of a string of decimal digits.\<close>

fun serial_value :: "pyval \<Rightarrow> int option" where
  "serial_value (PyInt n) = Some n"
| "serial_value (PyFloat (Finite q)) = Some (if 0 \<le> q then \<lfloor>q\<rfloor> else \<lceil>q\<rceil>)"
| "serial_value (PyStr s) =
     (if s \<noteq> [] \<and> list_all is_ascii_digit s then Some (int (nat_of_digits s)) else None)"
| "serial_value _ = None"

text \<open>A \<open>strptime\<close> that accepts nothing, for closed examples.\<close>

definition no_format :: strptime where
  "no_format s f = None"

section \<open>Schema Matcher\<close>

text \<open>
  A sheet is its rows of cells, and the two header tables of the parameter file
  (\<open>FileHeaders\<close>, \<open>FindapHeaders\<close>) are their columns, one per file type, in the order
  of the table. Every cell is modelled by its rendering \<open>str(cell)\<close>; a cell differs
  from \<open>''\<close> exactly when its rendering does. \<open>normalize\<close> is
  \<open>str(x).upper().strip()\<close>.
\<close>

type_synonym sheet = "string list list"

type_synonym match_result = "string \<times> nat option \<times> string list \<times> nat list \<times> string list"

definition normalize :: "string \<Rightarrow> string" where
  "normalize x = py_strip (py_upper x)"

text \<open>Lines 490 and 491 (499 and 500): the non-empty headers of a file type, normalized;
  line 492 (501): the cells of a row, normalized.\<close>

definition lst_currentheaders :: "string list \<Rightarrow> string list" where
  "lst_currentheaders col = map normalize (filter (\<lambda>c. c \<noteq> '''') col)"

definition lst_mycurrentrow :: "sheet \<Rightarrow> nat \<Rightarrow> string list" where
  "lst_mycurrentrow df_mydf i = map normalize (df_mydf ! i)"

definition exact_match :: "(string \<times> string list) list \<Rightarrow> sheet \<Rightarrow> nat \<Rightarrow> nat \<Rightarrow> bool" where
  "exact_match original df_mydf i j =
     (set (lst_currentheaders (snd (original ! j))) = set (lst_mycurrentrow df_mydf i))"

definition subset_match :: "(string \<times> string list) list \<Rightarrow> sheet \<Rightarrow> nat \<Rightarrow> nat \<Rightarrow> bool" where
  "subset_match original df_mydf i j =
     (set (lst_currentheaders (snd (original ! j))) \<subseteq> set (lst_mycurrentrow df_mydf i))"

text \<open>
  Lines 494 to 496 (504 to 506), the tuple returned for row \<open>i\<close> and the file type at
  position \<open>j\<close>; \<open>df_Findap_newheaders[str_filetype]\<close> raises \<open>KeyError\<close> when the
  second table has no such column.
\<close>

definition matched ::
  "(string \<times> string list) list \<Rightarrow> (string \<rightharpoonup> string list) \<Rightarrow> sheet \<Rightarrow> nat \<Rightarrow> nat
     \<Rightarrow> py_error + match_result" where
  "matched original findap df_mydf i j =
     (let str_filetype = fst (original ! j);
          hs = lst_currentheaders (snd (original ! j));
          rw = lst_mycurrentrow df_mydf i
      in case findap str_filetype of
           None \<Rightarrow> Inl KeyError
         | Some new \<Rightarrow>
             Inr (str_filetype, Some i, hs,
                  filter (\<lambda>idx. rw ! idx \<in> set hs) [0..<length rw],
                  filter (\<lambda>new_head. new_head \<noteq> '''') new))"

text \<open>The two nested loops of a pass: the first row, and in it the first file type, that
  the test accepts.\<close>

fun scan_filetypes :: "(nat \<Rightarrow> bool) \<Rightarrow> nat list \<Rightarrow> nat option" where
  "scan_filetypes P [] = None"
| "scan_filetypes P (j # js) = (if P j then Some j else scan_filetypes P js)"

fun scan_rows :: "(nat \<Rightarrow> nat \<Rightarrow> bool) \<Rightarrow> nat list \<Rightarrow> nat list \<Rightarrow> (nat \<times> nat) option" where
  "scan_rows P [] js = None"
| "scan_rows P (i # is) js =
     (case scan_filetypes (P i) js of Some j \<Rightarrow> Some (i, j) | None \<Rightarrow> scan_rows P is js)"

text \<open>\<open>fn_find_matching_category\<close>, lines 483 to 508.\<close>

definition fn_find_matching_category ::
  "(string \<times> string list) list \<Rightarrow> (string \<rightharpoonup> string list) \<Rightarrow> sheet \<Rightarrow> nat
     \<Rightarrow> py_error + match_result" where
  "fn_find_matching_category original findap df_mydf max_iterations =
     (let max_iterations = min (length df_mydf) max_iterations
      in case scan_rows (exact_match original df_mydf) [0..<max_iterations] [0..<length original] of
           Some (i, j) \<Rightarrow> matched original findap df_mydf i j
         | None \<Rightarrow>
            (case scan_rows (subset_match original df_mydf) [0..<max_iterations] [0..<length original] of
               Some (i, j) \<Rightarrow> matched original findap df_mydf i j
             | None \<Rightarrow> Inr (''UNKNOWN'', None, [], [], [])))"

text \<open>Lines 300 and 301 of \<open>data_processor.py\<close>: the header row the caller goes on
  with.\<close>

definition caller_header_row :: "match_result \<Rightarrow> nat option" where
  "caller_header_row r =
     (case r of (str_Filecategory, int_myheaderrow, _) \<Rightarrow>
        if py_upper str_Filecategory \<in> {''UNKNOWN'', ''''} then Some 0 else int_myheaderrow)"

text \<open>The pair \<open>(i', j')\<close> is tried before \<open>(i, j)\<close>: rows first, then file types.\<close>

definition earlier :: "nat \<Rightarrow> nat \<Rightarrow> nat \<Rightarrow> nat \<Rightarrow> bool" where
  "earlier i' j' i j = (i' < i \<or> (i' = i \<and> j' < j))"

text \<open>Two file types and two sheets: one whose second row is the header of a bank
  statement, one that matches nothing.\<close>

definition ex_original :: "(string \<times> string list) list" where
  "ex_original = [(''SALES V1'', [''Invoice No'', ''Date'', '''']),
                  (''BANK V1'', [''Date'', ''Amount'', ''Ref''])]"

definition ex_findap :: "string \<rightharpoonup> string list" where
  "ex_findap = [''SALES V1'' \<mapsto> [''INVOICE NUMBER'', ''TRANSACTION DATE'', ''''],
                ''BANK V1'' \<mapsto> [''TRANSACTION DATE'', ''AMOUNT'', ''REFERENCE'']]"

definition ex_sheet :: sheet where
  "ex_sheet = [[''Report'', ''invoice no'', ''date''], ['' date'', ''AMOUNT '', ''ref'']]"

definition ex_unknown_sheet :: sheet where
  "ex_unknown_sheet = [[''Name'', ''Total'']]"

definition ex_subset_sheet :: sheet where
  "ex_subset_sheet = [[''Report'', ''invoice no'', ''date'']]"

section \<open>Numeric columns and the yearly summary\<close>

text \<open>\<open>pd.api.types.is_numeric_dtype\<close>, on the dtype of a column.\<close>

definition is_numeric_dtype :: "dtype option \<Rightarrow> bool" where
  "is_numeric_dtype d = (d = Some Int64 \<or> d = Some Float64 \<or> d = Some Bool)"

text \<open>\<open>p in s\<close> on strings: \<open>p\<close> occurs in \<open>s\<close> as a contiguous piece.\<close>

fun startswith :: "string \<Rightarrow> string \<Rightarrow> bool" where
  "startswith s [] = True"
| "startswith [] (p # ps) = False"
| "startswith (c # cs) (p # ps) = (c = p \<and> startswith cs ps)"

fun py_contains :: "string \<Rightarrow> string \<Rightarrow> bool" where
  "py_contains p [] = (p = [])"
| "py_contains p (c # cs) = (startswith (c # cs) p \<or> py_contains p cs)"





text \<open>\<open>get_numeric_columns\<close>, lines 98 to 130 of \<open>file_handler.py\<close>, called with a
  list of patterns.\<close>

definition get_numeric_columns :: "dataframe \<Rightarrow> string list \<Rightarrow> string list" where
  "get_numeric_columns df exclude_patterns =
     filter (\<lambda>col. is_numeric_dtype (dtypes df col) \<and>
                   \<not> list_ex (\<lambda>pattern. py_contains (py_upper pattern) (py_upper col)) exclude_patterns)
       (columns df)"

text \<open>The cells of a column, in row order, and the number a cell adds to a sum (\<open>sum\<close>
  skips the null cells).\<close>

definition column_values :: "dataframe \<Rightarrow> string \<Rightarrow> cell list" where
  "column_values df c = map (\<lambda>r. case r c of Some v \<Rightarrow> v | None \<Rightarrow> Null) (rows df)"

fun cell_num :: "cell \<Rightarrow> rat" where
  "cell_num (Num q) = q"
| "cell_num _ = 0"

text \<open>
  The keys of \<open>groupby\<close>: the distinct cells of the column that are not null, sorted.
  Numbers and timestamps are ordered by value and strings by code points; in a column of
  mixed kinds, numbers come first, then timestamps, then strings.
\<close>

fun str_le :: "string \<Rightarrow> string \<Rightarrow> bool" where
  "str_le [] t = True"
| "str_le (c # cs) [] = False"
| "str_le (c # cs) (d # ds) =
     ((of_char c :: nat) < of_char d \<or> (c = d \<and> str_le cs ds))"

fun cell_le :: "cell \<Rightarrow> cell \<Rightarrow> bool" where
  "cell_le (Num a) (Num b) = (a \<le> b)"
| "cell_le (Num a) _ = True"
| "cell_le (Date a) (Num b) = False"
| "cell_le (Date a) (Date b) = (a \<le> b)"
| "cell_le (Date a) _ = True"
| "cell_le (Str a) (Str b) = str_le a b"
| "cell_le (Str a) Null = True"
| "cell_le (Str a) _ = False"
| "cell_le Null Null = True"
| "cell_le Null _ = False"

fun insert_cell :: "cell \<Rightarrow> cell list \<Rightarrow> cell list" where
  "insert_cell x [] = [x]"
| "insert_cell x (y # ys) = (if cell_le x y then x # y # ys else y # insert_cell x ys)"

definition sort_cells :: "cell list \<Rightarrow> cell list" where
  "sort_cells xs = foldr insert_cell xs []"


text \<open>
  \<open>get_date_range\<close>, lines 157 to 190 of \<open>file_handler.py\<close>.
  \<open>pd.to_datetime(errors='coerce')\<close> on a cell and \<open>strftime('%d-%b-%Y')\<close> are
  parameters; \<open>None\<close> is \<open>NaT\<close>.
\<close>

definition get_date_range ::
  "(cell \<Rightarrow> int option) \<Rightarrow> (int \<Rightarrow> string) \<Rightarrow> dataframe \<Rightarrow> string \<times> string" where
  "get_date_range to_datetime strftime df =
     (case find (\<lambda>col. py_strip (py_upper col) = ''TRANSACTION DATE'') (columns df) of
        None \<Rightarrow> (''N/A'', ''N/A'')
      | Some date_col \<Rightarrow>
          (let valid_dates = List.map_filter to_datetime (column_values df date_col)
           in if valid_dates = [] then (''N/A'', ''N/A'')
              else (strftime (fold min (tl valid_dates) (hd valid_dates)),
                    strftime (fold max (tl valid_dates) (hd valid_dates)))))"







section \<open>Top-N concentration analysis\<close>

text \<open>
  \<open>_generate_top_analysis\<close>, lines 260 to 362 of \<open>quick_analysis_engine.py\<close>. The
  empty dictionary it returns on every early exit is \<open>None\<close>. Column names are taken to be
  distinct. Amounts are exact
  numbers; a row of the result table holds the year, \<open>N\<close>, the amount of the \<open>N\<close> first
  partners and their share in percent, before it is rendered with one decimal place.
\<close>

record top_row =
  top_year :: cell
  top_n :: nat
  total_amount :: rat
  percentage :: rat

text \<open>Lines 269 to 283: the status column and the clean records.\<close>

definition find_dup_col :: "dataframe \<Rightarrow> string option" where
  "find_dup_col df = find (\<lambda>col. py_strip (py_upper col) = ''DUPLICATE STATUS'') (columns df)"

definition is_clean :: "cell option \<Rightarrow> bool" where
  "is_clean v =
     (case v of
        Some (Str s) \<Rightarrow> py_upper s \<in> {''NO DUPLICATES'', ''HAS DUPLICATES''}
      | _ \<Rightarrow> False)"

definition clean_records :: "dataframe \<Rightarrow> dataframe" where
  "clean_records df =
     (case find_dup_col df of
        Some dup_col \<Rightarrow> df\<lparr>rows := filter (\<lambda>r. is_clean (r dup_col)) (rows df)\<rparr>
      | None \<Rightarrow> df)"

text \<open>Lines 295 to 319: the first column that names a partner, and the partner type.\<close>

definition is_partner_column :: "string \<Rightarrow> bool" where
  "is_partner_column col =
     (py_contains ''SUPPLIER NAME'' (py_upper col) \<or> py_contains ''BUYER NAME'' (py_upper col) \<or>
      py_contains ''CLIENT NAME'' (py_upper col) \<or> py_contains ''CUSTOMER NAME'' (py_upper col))"

definition partner_type_of :: "string \<Rightarrow> string \<Rightarrow> string" where
  "partner_type_of col group_name =
     (if py_contains ''SUPPLIER NAME'' (py_upper col)
      then (if py_contains ''SALES'' (py_upper group_name) \<or> py_contains ''REVENUE'' (py_upper group_name)
            then ''Clients'' else ''Suppliers'')
      else ''Clients'')"

text \<open>Line 329: the sum of a row over the numeric columns.\<close>

definition row_total :: "string list \<Rightarrow> row \<Rightarrow> rat" where
  "row_total numeric_cols r =
     sum_list (map (\<lambda>c. cell_num (case r c of Some v \<Rightarrow> v | None \<Rightarrow> Null)) numeric_cols)"

text \<open>
  Line 331: \<open>groupby(['YEAR', partner_col])\<close> leaves out the rows with a null key.
  The partners of a year, in order of first appearance, and the amount of each.
\<close>

definition has_keys :: "string \<Rightarrow> row \<Rightarrow> bool" where
  "has_keys partner_col r =
     (r ''YEAR'' \<noteq> None \<and> r ''YEAR'' \<noteq> Some Null \<and> r partner_col \<noteq> None \<and> r partner_col \<noteq> Some Null)"

definition year_partners :: "dataframe \<Rightarrow> string \<Rightarrow> cell \<Rightarrow> cell option list" where
  "year_partners df partner_col year =
     remdups (map (\<lambda>r. r partner_col)
        (filter (\<lambda>r. has_keys partner_col r \<and> r ''YEAR'' = Some year) (rows df)))"

definition year_amounts :: "dataframe \<Rightarrow> string list \<Rightarrow> string \<Rightarrow> cell \<Rightarrow> rat list" where
  "year_amounts df numeric_cols partner_col year =
     map (\<lambda>p. sum_list (map (row_total numeric_cols)
                  (filter (\<lambda>r. has_keys partner_col r \<and> r ''YEAR'' = Some year \<and> r partner_col = p)
                     (rows df))))
       (year_partners df partner_col year)"

text \<open>Lines 336 to 353, for one year: the amounts in descending order and one row for
  each of 5, 10 and 20 that the number of partners reaches.\<close>

definition year_results :: "cell \<Rightarrow> rat list \<Rightarrow> top_row list" where
  "year_results year amounts =
     (let year_data = rev (sort amounts);
          year_total = sum_list amounts
      in concat (map (\<lambda>n. if n \<le> length year_data
                           then [\<lparr>top_year = year, top_n = n,
                                  total_amount = sum_list (take n year_data),
                                  percentage = (if 0 < year_total
                                                then sum_list (take n year_data) / year_total * 100
                                                else 0)\<rparr>]
                           else [])
                   [5, 10, 20]))"

text \<open>\<open>sorted\<close> raises \<open>TypeError\<close> on years of different kinds; the handler of line 360
  returns the empty dictionary.\<close>

fun cell_kind :: "cell \<Rightarrow> nat" where
  "cell_kind Null = 0"
| "cell_kind (Num _) = 1"
| "cell_kind (Str _) = 2"
| "cell_kind (Date _) = 3"

text \<open>The years of line 336: the cells of \<open>YEAR\<close> in the rows that have both keys.\<close>

definition analysis_years :: "dataframe \<Rightarrow> string \<Rightarrow> cell list" where
  "analysis_years df partner_col =
     remdups (filter (\<lambda>v. v \<noteq> Null)
        (map (\<lambda>r. case r ''YEAR'' of Some v \<Rightarrow> v | None \<Rightarrow> Null)
           (filter (has_keys partner_col) (rows df))))"

definition top_analysis_of_clean ::
  "string list \<Rightarrow> dataframe \<Rightarrow> string \<Rightarrow> (top_row list \<times> string) option" where
  "top_analysis_of_clean exclude_patterns df_clean group_name =
     (if df_empty df_clean then None
      else
        let numeric_cols = get_numeric_columns df_clean exclude_patterns
        in if numeric_cols = [] then None
           else
             (case find is_partner_column (columns df_clean) of
                None \<Rightarrow> None
              | Some partner_col \<Rightarrow>
                  (let years = analysis_years df_clean partner_col
                   in if \<exists>a\<in>set years. \<exists>b\<in>set years. cell_kind a \<noteq> cell_kind b then None
                      else Some (concat (map (\<lambda>year. year_results year
                                             (year_amounts df_clean numeric_cols partner_col year))
                                           (sort_cells years)),
                                 partner_type_of partner_col group_name))))"

text \<open>
  The whole function. The \<open>.str\<close> accessor of line 278 is outside the \<open>try\<close> block and
  raises \<open>AttributeError\<close> on a status column that is not of dtype \<open>object\<close>.
\<close>

definition generate_top_analysis ::
  "string list \<Rightarrow> dataframe \<Rightarrow> string \<Rightarrow> py_error + (top_row list \<times> string) option" where
  "generate_top_analysis exclude_patterns df group_name =
     (if ''YEAR'' \<notin> set (columns df) then Inr None
      else
        (case find_dup_col df of
           Some dup_col \<Rightarrow>
             if dtypes df dup_col = Some Object
             then Inr (top_analysis_of_clean exclude_patterns (clean_records df) group_name)
             else Inl AttributeError
         | None \<Rightarrow> Inr (top_analysis_of_clean exclude_patterns (clean_records df) group_name)))"

text \<open>Purchases of two years from six suppliers; two rows are copies.\<close>

definition ex_row :: "string \<Rightarrow> rat \<Rightarrow> rat \<Rightarrow> string \<Rightarrow> row" where
  "ex_row name amount year status =
     [''SUPPLIER NAME'' \<mapsto> Str name, ''AMOUNT'' \<mapsto> Num amount, ''YEAR'' \<mapsto> Num year,
      ''Duplicate Status'' \<mapsto> Str status]"

definition ex_top :: dataframe where
  "ex_top = \<lparr>columns = [''SUPPLIER NAME'', ''AMOUNT'', ''YEAR'', ''Duplicate Status''],
      dtypes = [''SUPPLIER NAME'' \<mapsto> Object, ''AMOUNT'' \<mapsto> Float64, ''YEAR'' \<mapsto> Int64,
                ''Duplicate Status'' \<mapsto> Object],
      rows = [ex_row ''A'' 10 2021 ''NO duplicates'', ex_row ''B'' 20 2021 ''NO duplicates'',
              ex_row ''C'' 30 2021 ''HAS duplicates'', ex_row ''C'' 30 2021 ''IS duplicate'',
              ex_row ''D'' 40 2021 ''NO duplicates'', ex_row ''E'' 50 2021 ''NO duplicates'',
              ex_row ''F'' 5 2021 ''IS duplicate'', ex_row ''A'' 7 2020 ''NO duplicates'']\<rparr>"

definition ex_top_clean :: dataframe where
  "ex_top_clean = ex_top\<lparr>rows :=
       [ex_row ''A'' 10 2021 ''NO duplicates'', ex_row ''B'' 20 2021 ''NO duplicates'',
        ex_row ''C'' 30 2021 ''HAS duplicates'',
        ex_row ''D'' 40 2021 ''NO duplicates'', ex_row ''E'' 50 2021 ''NO duplicates'',
        ex_row ''A'' 7 2020 ''NO duplicates'']\<rparr>"

section \<open>Duplicate Detector: properties\<close>

lemma length_duplicated_first [simp]: "length (duplicated_first ks) = length ks"
  by (simp add: duplicated_first_def)

lemma length_duplicated_all [simp]: "length (duplicated_all ks) = length ks"
  by (simp add: duplicated_all_def)

lemma duplicated_first_nth:
  "i < length ks \<Longrightarrow> duplicated_first ks ! i = (\<exists>j<i. ks ! j = ks ! i)"
  by (auto simp: duplicated_first_def list_ex_iff)

lemma duplicated_all_nth:
  "i < length ks \<Longrightarrow> duplicated_all ks ! i = (\<exists>j<length ks. j \<noteq> i \<and> ks ! j = ks ! i)"
  by (auto simp: duplicated_all_def list_ex_iff)

text \<open>The call, for a frame that is not empty, as three assignments to the copy.\<close>

lemma call_nonempty:
  assumes "\<not> df_empty (objs st a)"
  shows "fn_check_duplicatedrecords params st a category =
     (next_free st,
      st\<lparr>objs := (objs st)(next_free st :=
            loc_assign
              (loc_assign (set_column_scalar (objs st a) Duplicate_Status NO_duplicates)
                 (map (\<lambda>(x, d). x \<and> \<not> d)
                    (zip (duplicated_all (keys_of params (objs st a) category))
                         (duplicated_first (keys_of params (objs st a) category))))
                 Duplicate_Status HAS_duplicates)
              (duplicated_first (keys_of params (objs st a) category)) Duplicate_Status IS_duplicate),
         next_free := Suc (next_free st)\<rparr>)"
  using assms
  by (simp add: fn_check_duplicatedrecords_def df_copy_def alloc_def update_obj_def
      duplicated_def keys_of_def Let_def)

lemma call_empty:
  assumes "df_empty (objs st a)"
  shows "fn_check_duplicatedrecords params st a category =
     (next_free st, st\<lparr>objs := (objs st)(next_free st := empty_DataFrame),
                        next_free := Suc (next_free st)\<rparr>)"
  using assms by (simp add: fn_check_duplicatedrecords_def alloc_def)

lemma detect_nonempty:
  assumes "\<not> df_empty (objs st a)"
  shows "detect params st a category =
     loc_assign
       (loc_assign (set_column_scalar (objs st a) Duplicate_Status NO_duplicates)
          (map (\<lambda>(x, d). x \<and> \<not> d)
             (zip (duplicated_all (keys_of params (objs st a) category))
                  (duplicated_first (keys_of params (objs st a) category))))
          Duplicate_Status HAS_duplicates)
       (duplicated_first (keys_of params (objs st a) category)) Duplicate_Status IS_duplicate"
  by (simp add: detect_def call_nonempty [OF assms])

lemma detect_empty:
  assumes "df_empty (objs st a)"
  shows "detect params st a category = empty_DataFrame"
  by (simp add: detect_def call_empty [OF assms])

lemma detect_length:
  assumes "\<not> df_empty (objs st a)"
  shows "length (rows (detect params st a category)) = length (rows (objs st a))"
  by (simp add: detect_nonempty [OF assms] loc_assign_def set_column_scalar_def keys_of_def)

lemma detect_row:
  assumes "\<not> df_empty (objs st a)" and "i < length (rows (objs st a))"
  shows "rows (detect params st a category) ! i =
         (rows (objs st a) ! i)(Duplicate_Status \<mapsto> status_at (keys_of params (objs st a) category) i)"
  using assms(2)
  by (simp add: detect_nonempty [OF assms(1)] loc_assign_def set_column_scalar_def keys_of_def
      status_at_def)

lemma detect_columns:
  assumes "\<not> df_empty (objs st a)"
  shows "columns (detect params st a category) =
         (if Duplicate_Status \<in> set (columns (objs st a)) then columns (objs st a)
          else columns (objs st a) @ [Duplicate_Status])"
  by (simp add: detect_nonempty [OF assms] loc_assign_def set_column_scalar_def)

lemma detect_dtypes:
  assumes "\<not> df_empty (objs st a)"
  shows "dtypes (detect params st a category) = (dtypes (objs st a))(Duplicate_Status \<mapsto> Object)"
  by (simp add: detect_nonempty [OF assms] loc_assign_def set_column_scalar_def)

text \<open>The rows a filter keeps from \<open>[0..<n]\<close>: the first is the least, the others follow it.\<close>

lemma filter_upt_Cons:
  assumes "filter P [0..<n] = x # xs"
  shows "x < n \<and> P x \<and> (\<forall>j<x. \<not> P j) \<and> (\<forall>y\<in>set xs. x < y \<and> y < n \<and> P y)"
proof -
  have mem: "set (x # xs) = {j. j < n \<and> P j}"
    unfolding assms [symmetric] by auto
  have "sorted_wrt (<) (filter P [0..<n])"
    by (rule sorted_wrt_filter) simp
  then have srt: "\<forall>y\<in>set xs. x < y"
    by (simp add: assms)
  have first: "x < n \<and> P x" using mem by auto
  moreover have "\<forall>j<x. \<not> P j"
  proof (intro allI impI notI)
    fix j assume "j < x" and "P j"
    with first have "j \<in> set (x # xs)" unfolding mem by simp
    with srt \<open>j < x\<close> show False by auto
  qed
  moreover have "\<forall>y\<in>set xs. x < y \<and> y < n \<and> P y"
    using srt mem by auto
  ultimately show ?thesis by blast
qed

lemma group_of_mem: "i < length ks \<Longrightarrow> i \<in> set (group_of ks i)"
  by (simp add: group_of_def)

lemma group_of_split:
  assumes "i < length ks"
  obtains x xs where "group_of ks i = x # xs"
  using group_of_mem [OF assms] by (cases "group_of ks i") auto

lemma status_at_head:
  assumes "group_of ks i = x # xs"
  shows "status_at ks x = (if xs = [] then NO_duplicates else HAS_duplicates)"
proof -
  from filter_upt_Cons [OF assms [unfolded group_of_def]]
  have x: "x < length ks" "ks ! x = ks ! i" "\<forall>j<x. ks ! j \<noteq> ks ! i"
    and xs: "\<forall>y\<in>set xs. x < y \<and> y < length ks \<and> ks ! y = ks ! i"
    by auto
  have mem: "set (x # xs) = {j. j < length ks \<and> ks ! j = ks ! i}"
    unfolding assms [symmetric] group_of_def by auto
  have nf: "\<not> duplicated_first ks ! x"
    using x by (simp add: duplicated_first_nth)
  have "duplicated_all ks ! x = (xs \<noteq> [])"
  proof
    assume "duplicated_all ks ! x"
    then obtain j where "j < length ks" "j \<noteq> x" "ks ! j = ks ! x"
      using x(1) by (auto simp: duplicated_all_nth)
    then have "j \<in> set (x # xs)" unfolding mem using x(2) by simp
    with \<open>j \<noteq> x\<close> show "xs \<noteq> []" by auto
  next
    assume "xs \<noteq> []"
    then obtain y where "y \<in> set xs" by (cases xs) auto
    with xs have "y < length ks" "y \<noteq> x" "ks ! y = ks ! x" using x(2) by auto
    then show "duplicated_all ks ! x" using x(1) by (auto simp: duplicated_all_nth)
  qed
  with nf show ?thesis by (simp add: status_at_def)
qed

lemma status_at_tail:
  assumes "group_of ks i = x # xs" and "y \<in> set xs"
  shows "status_at ks y = IS_duplicate"
proof -
  from filter_upt_Cons [OF assms(1) [unfolded group_of_def]] assms(2)
  have "x < y" "y < length ks" "ks ! y = ks ! i" "ks ! x = ks ! i" by auto
  then have "duplicated_first ks ! y"
    by (auto simp: duplicated_first_nth)
  then show ?thesis by (simp add: status_at_def)
qed

lemma statuses_distinct:
  "NO_duplicates \<noteq> HAS_duplicates" "NO_duplicates \<noteq> IS_duplicate" "HAS_duplicates \<noteq> IS_duplicate"
  by (simp_all add: NO_duplicates_def HAS_duplicates_def IS_duplicate_def)

lemma ex_ne: "\<not> df_empty (objs ex_store 0)"
  by (simp add: ex_store_def ex_frame_def df_empty_def)

lemma ex_keys:
  "keys_of ex_params (objs ex_store 0) ''SALES'' =
     [[Some (Str ''A1'')], [Some (Str ''A2'')], [Some (Str ''A1'')]]"
  by (simp add: keys_of_def criteria_columns_def configured_fields_def ex_params_def ex_store_def
      ex_frame_def key_of_def py_strip_def py_isspace_def)

lemma ex_g0: "group_of (keys_of ex_params (objs ex_store 0) ''SALES'') 0 = [0, 2]"
  unfolding ex_keys by (simp add: group_of_def upt_rec)

lemma ex_g1: "group_of (keys_of ex_params (objs ex_store 0) ''SALES'') (Suc 0) = [Suc 0]"
  unfolding ex_keys by (simp add: group_of_def upt_rec)

text \<open>
  C1. Whatever the frame and the category: a frame that is not empty keeps all its rows,
  and every row \<open>i\<close> of the result carries one of the three statuses under
  \<open>Duplicate Status\<close>. With \<open>g\<close> the rows that share the resolved key tuple of row \<open>i\<close>,
  in input order: when \<open>g\<close> has one row it is \<open>NO duplicates\<close>; when \<open>g\<close> has more,
  its first row is \<open>HAS duplicates\<close> and all the others are \<open>IS duplicate\<close>, so that
  exactly one row of \<open>g\<close> is \<open>HAS duplicates\<close> and \<open>length g - 1\<close> are \<open>IS duplicate\<close>.
\<close>

theorem duplicate_groups_tagged:
  "(\<not> df_empty (objs st a) \<longrightarrow>
      length (rows (detect params st a category)) = length (rows (objs st a))) \<and>
   (\<forall>i<length (rows (detect params st a category)).
      let ks = keys_of params (objs st a) category;
          g = group_of ks i;
          status = (\<lambda>j. (rows (detect params st a category) ! j) Duplicate_Status)
      in i \<in> set g \<and>
         status i \<in> {Some NO_duplicates, Some HAS_duplicates, Some IS_duplicate} \<and>
         (length g = 1 \<longrightarrow> status i = Some NO_duplicates) \<and>
         (1 < length g \<longrightarrow>
            status (hd g) = Some HAS_duplicates \<and>
            (\<forall>j\<in>set (tl g). status j = Some IS_duplicate) \<and>
            length (filter (\<lambda>j. status j = Some HAS_duplicates) g) = 1 \<and>
            length (filter (\<lambda>j. status j = Some IS_duplicate) g) = length g - 1))"
proof (intro conjI allI impI)
  assume "\<not> df_empty (objs st a)"
  then show "length (rows (detect params st a category)) = length (rows (objs st a))"
    by (rule detect_length)
next
  fix i
  assume i: "i < length (rows (detect params st a category))"
  define ks where "ks = keys_of params (objs st a) category"
  define status where "status = (\<lambda>j. (rows (detect params st a category) ! j) Duplicate_Status)"
  have ne: "\<not> df_empty (objs st a)"
  proof
    assume "df_empty (objs st a)"
    then have "detect params st a category = empty_DataFrame" by (rule detect_empty)
    with i show False by (simp add: empty_DataFrame_def)
  qed
  have len: "length ks = length (rows (objs st a))"
    by (simp add: ks_def keys_of_def)
  have i': "i < length ks"
    using i detect_length [OF ne] len by simp
  have st: "status j = Some (status_at ks j)" if "j < length ks" for j
    using that detect_row [OF ne, of j params category] len
    by (simp add: status_def ks_def)
  obtain x xs where g: "group_of ks i = x # xs"
    using i' by (rule group_of_split)
  have mem: "\<forall>j\<in>set (x # xs). j < length ks"
    unfolding g [symmetric] group_of_def by simp
  have x: "status x = Some (if xs = [] then NO_duplicates else HAS_duplicates)"
    using mem st status_at_head [OF g] by simp
  have xs: "status y = Some IS_duplicate" if "y \<in> set xs" for y
    using mem st status_at_tail [OF g that] that by simp
  have ig: "i \<in> set (x # xs)"
    using group_of_mem [OF i'] g by simp
  have A: "status i \<in> {Some NO_duplicates, Some HAS_duplicates, Some IS_duplicate}"
    using ig x xs by auto
  have B: "length (x # xs) = 1 \<longrightarrow> status i = Some NO_duplicates"
    using ig x by auto
  have fH: "filter (\<lambda>j. status j = Some HAS_duplicates) xs = []"
    using xs statuses_distinct by (auto simp: filter_empty_conv)
  have fI: "filter (\<lambda>j. status j = Some IS_duplicate) xs = xs"
    using xs by (auto simp: filter_id_conv)
  have C: "1 < length (x # xs) \<longrightarrow>
            status (hd (x # xs)) = Some HAS_duplicates \<and>
            (\<forall>j\<in>set (tl (x # xs)). status j = Some IS_duplicate) \<and>
            length (filter (\<lambda>j. status j = Some HAS_duplicates) (x # xs)) = 1 \<and>
            length (filter (\<lambda>j. status j = Some IS_duplicate) (x # xs)) = length (x # xs) - 1"
    using x xs fH fI statuses_distinct by auto
  show "let ks = keys_of params (objs st a) category;
          g = group_of ks i;
          status = (\<lambda>j. (rows (detect params st a category) ! j) Duplicate_Status)
      in i \<in> set g \<and>
         status i \<in> {Some NO_duplicates, Some HAS_duplicates, Some IS_duplicate} \<and>
         (length g = 1 \<longrightarrow> status i = Some NO_duplicates) \<and>
         (1 < length g \<longrightarrow>
            status (hd g) = Some HAS_duplicates \<and>
            (\<forall>j\<in>set (tl g). status j = Some IS_duplicate) \<and>
            length (filter (\<lambda>j. status j = Some HAS_duplicates) g) = 1 \<and>
            length (filter (\<lambda>j. status j = Some IS_duplicate) g) = length g - 1)"
    unfolding Let_def ks_def [symmetric] status_def [symmetric] g
    using ig A B C by blast
qed

theorem duplicate_groups_tagged_witness:
  "\<not> df_empty (objs ex_store 0) \<and>
   length (rows (detect ex_params ex_store 0 ''SALES'')) = 3 \<and>
   (rows (detect ex_params ex_store 0 ''SALES'') ! 0) Duplicate_Status = Some HAS_duplicates \<and>
   (rows (detect ex_params ex_store 0 ''SALES'') ! 1) Duplicate_Status = Some NO_duplicates \<and>
   (rows (detect ex_params ex_store 0 ''SALES'') ! 2) Duplicate_Status = Some IS_duplicate"
proof -
  note T = duplicate_groups_tagged [where st = ex_store and a = 0 and params = ex_params
      and category = "''SALES''"]
  have len: "length (rows (detect ex_params ex_store 0 ''SALES'')) = 3"
    using T ex_ne by (simp add: ex_store_def ex_frame_def)
  have T0: "0 < length (rows (detect ex_params ex_store 0 ''SALES''))"
    and T1: "1 < length (rows (detect ex_params ex_store 0 ''SALES''))"
    using len by simp_all
  from T [THEN conjunct2, rule_format, OF T0] T [THEN conjunct2, rule_format, OF T1]
  show ?thesis
    using ex_ne len by (simp add: Let_def ex_g0 ex_g1)
qed

lemma ex_bank_fields: "configured_fields ex_params ''BANK'' = [''IBAN'']"
  by (simp add: configured_fields_def ex_params_def py_strip_def py_isspace_def)

text \<open>
  C5. When the key fields configured for the category (read as line 639 reads them, with
  surrounding white space removed) are none, or none of them is a column of the frame,
  the key columns are all the columns of the frame, in their order, and for a frame that is
  not empty the status of every row is the one computed from its whole row.
\<close>

theorem fallback_key_is_all_columns:
  assumes "\<forall>c\<in>set (configured_fields params category). c \<notin> set (columns (objs st a))"
  shows "criteria_columns params (objs st a) category = columns (objs st a) \<and>
         (\<not> df_empty (objs st a) \<longrightarrow>
            (\<forall>i<length (rows (objs st a)).
               (rows (detect params st a category) ! i) Duplicate_Status =
               Some (status_at (map (key_of (columns (objs st a))) (rows (objs st a))) i)))"
proof -
  have "filter (\<lambda>col. col \<in> set (columns (objs st a))) (configured_fields params category) = []"
    using assms by (simp add: filter_empty_conv)
  then have crit: "criteria_columns params (objs st a) category = columns (objs st a)"
    by (simp add: criteria_columns_def)
  then have "keys_of params (objs st a) category = map (key_of (columns (objs st a))) (rows (objs st a))"
    by (simp add: keys_of_def)
  with crit show ?thesis
    by (auto simp: detect_row)
qed

theorem fallback_key_is_all_columns_witness:
  "configured_fields ex_params ''BANK'' = [''IBAN''] \<and>
   ''IBAN'' \<notin> set (columns (objs ex_store 0)) \<and>
   \<not> df_empty (objs ex_store 0) \<and>
   criteria_columns ex_params (objs ex_store 0) ''BANK'' = [''INVOICE'', ''AMOUNT''] \<and>
   (rows (detect ex_params ex_store 0 ''BANK'') ! 2) Duplicate_Status = Some NO_duplicates"
proof -
  have h: "\<forall>c\<in>set (configured_fields ex_params ''BANK''). c \<notin> set (columns (objs ex_store 0))"
    by (simp add: ex_bank_fields ex_store_def ex_frame_def)
  have two: "2 < length (rows (objs ex_store 0))"
    by (simp add: ex_store_def ex_frame_def)
  have "status_at (map (key_of (columns (objs ex_store 0))) (rows (objs ex_store 0))) 2 = NO_duplicates"
    by (simp add: status_at_def duplicated_first_def duplicated_all_def key_of_def ex_store_def
        ex_frame_def upt_rec)
  with fallback_key_is_all_columns [OF h] ex_ne two show ?thesis
    by (simp add: ex_bank_fields ex_store_def ex_frame_def)
qed

lemma ex_tagged_ne: "\<not> df_empty (objs ex_tagged_store 0)"
  by (simp add: ex_tagged_store_def ex_tagged_frame_def df_empty_def)

text \<open>
  C10, as stated, fails on a frame that already has a column \<open>Duplicate Status\<close>:
  that column of the input is overwritten and no column is added.
\<close>

theorem detector_status_column_counterexample:
  "\<not> df_empty (objs ex_tagged_store 0) \<and>
   Duplicate_Status \<in> set (columns (objs ex_tagged_store 0)) \<and>
   (rows (detect ex_params ex_tagged_store 0 ''SALES'') ! 0) Duplicate_Status \<noteq>
     (rows (objs ex_tagged_store 0) ! 0) Duplicate_Status \<and>
   columns (detect ex_params ex_tagged_store 0 ''SALES'') = columns (objs ex_tagged_store 0)"
proof -
  have "0 < length (rows (objs ex_tagged_store 0))"
    by (simp add: ex_tagged_store_def ex_tagged_frame_def)
  from detect_row [OF ex_tagged_ne this] detect_columns [OF ex_tagged_ne] ex_tagged_ne
  show ?thesis
    by (simp add: ex_tagged_store_def ex_tagged_frame_def Duplicate_Status_def status_at_def
        IS_duplicate_def HAS_duplicates_def NO_duplicates_def)
qed

text \<open>
  C10, amended. The call returns a new object and leaves every frame that existed before
  the call as it was, the caller's frame included. For an empty frame the result is the
  empty table. For a frame that is not empty the result has the same rows in the same
  order, the cells and the dtype of every column other than \<open>Duplicate Status\<close> are
  unchanged, and \<open>Duplicate Status\<close> is added as the last column when the frame has no
  such column (when it has one, the columns stay as they are).
\<close>

theorem detector_frame:
  "(case fn_check_duplicatedrecords params st a category of
      (a', st') \<Rightarrow> a' = next_free st \<and> (\<forall>b<next_free st. objs st' b = objs st b)) \<and>
   (df_empty (objs st a) \<longrightarrow> detect params st a category = empty_DataFrame) \<and>
   (\<not> df_empty (objs st a) \<longrightarrow>
      length (rows (detect params st a category)) = length (rows (objs st a)) \<and>
      (\<forall>i<length (rows (objs st a)). \<forall>c. c \<noteq> Duplicate_Status \<longrightarrow>
          (rows (detect params st a category) ! i) c = (rows (objs st a) ! i) c) \<and>
      (\<forall>c. c \<noteq> Duplicate_Status \<longrightarrow>
          dtypes (detect params st a category) c = dtypes (objs st a) c) \<and>
      (Duplicate_Status \<notin> set (columns (objs st a)) \<longrightarrow>
          columns (detect params st a category) = columns (objs st a) @ [Duplicate_Status]) \<and>
      (Duplicate_Status \<in> set (columns (objs st a)) \<longrightarrow>
          columns (detect params st a category) = columns (objs st a)))"
proof (intro conjI impI)
  show "case fn_check_duplicatedrecords params st a category of
      (a', st') \<Rightarrow> a' = next_free st \<and> (\<forall>b<next_free st. objs st' b = objs st b)"
  proof (cases "df_empty (objs st a)")
    case True
    then show ?thesis by (simp add: call_empty)
  next
    case False
    then show ?thesis by (simp add: call_nonempty)
  qed
next
  assume "df_empty (objs st a)"
  then show "detect params st a category = empty_DataFrame" by (rule detect_empty)
next
  assume ne: "\<not> df_empty (objs st a)"
  show "length (rows (detect params st a category)) = length (rows (objs st a))"
    using ne by (rule detect_length)
  show "\<forall>i<length (rows (objs st a)). \<forall>c. c \<noteq> Duplicate_Status \<longrightarrow>
          (rows (detect params st a category) ! i) c = (rows (objs st a) ! i) c"
    by (simp add: detect_row [OF ne])
  show "\<forall>c. c \<noteq> Duplicate_Status \<longrightarrow>
          dtypes (detect params st a category) c = dtypes (objs st a) c"
    by (simp add: detect_dtypes [OF ne])
  show "columns (detect params st a category) = columns (objs st a) @ [Duplicate_Status]"
    if "Duplicate_Status \<notin> set (columns (objs st a))"
    using that by (simp add: detect_columns [OF ne])
  show "columns (detect params st a category) = columns (objs st a)"
    if "Duplicate_Status \<in> set (columns (objs st a))"
    using that by (simp add: detect_columns [OF ne])
qed

theorem detector_frame_witness:
  "\<not> df_empty (objs ex_store 0) \<and> 0 < next_free ex_store \<and>
   Duplicate_Status \<notin> set (columns (objs ex_store 0)) \<and>
   fst (fn_check_duplicatedrecords ex_params ex_store 0 ''SALES'') = 1 \<and>
   objs (snd (fn_check_duplicatedrecords ex_params ex_store 0 ''SALES'')) 0 = ex_frame \<and>
   length (rows (detect ex_params ex_store 0 ''SALES'')) = 3 \<and>
   (rows (detect ex_params ex_store 0 ''SALES'') ! 2) ''AMOUNT'' = Some (Num 30) \<and>
   columns (detect ex_params ex_store 0 ''SALES'') = [''INVOICE'', ''AMOUNT'', ''Duplicate Status'']"
proof -
  note T = detector_frame [where st = ex_store and a = 0 and params = ex_params
      and category = "''SALES''"]
  have nf: "next_free ex_store = 1" and fr: "objs ex_store 0 = ex_frame"
    by (simp_all add: ex_store_def)
  have nin: "Duplicate_Status \<notin> set (columns (objs ex_store 0))"
    by (simp add: fr ex_frame_def Duplicate_Status_def)
  have two: "2 < length (rows (objs ex_store 0))" and am: "''AMOUNT'' \<noteq> Duplicate_Status"
    by (simp_all add: fr ex_frame_def Duplicate_Status_def)
  from T [THEN conjunct1] nf
  have A: "fst (fn_check_duplicatedrecords ex_params ex_store 0 ''SALES'') = 1 \<and>
           objs (snd (fn_check_duplicatedrecords ex_params ex_store 0 ''SALES'')) 0 = objs ex_store 0"
    by (simp add: split_beta)
  from T [THEN conjunct2, THEN conjunct2, rule_format, OF ex_ne]
  have B: "length (rows (detect ex_params ex_store 0 ''SALES'')) = length (rows (objs ex_store 0))"
    and C: "(rows (detect ex_params ex_store 0 ''SALES'') ! 2) ''AMOUNT'' = (rows (objs ex_store 0) ! 2) ''AMOUNT''"
    and D: "columns (detect ex_params ex_store 0 ''SALES'') = columns (objs ex_store 0) @ [Duplicate_Status]"
    using two am nin by auto
  show ?thesis
    using A B C D ex_ne nin by (simp add: fr nf ex_frame_def Duplicate_Status_def)
qed

section \<open>Sign exchange: properties\<close>







section \<open>Date parser: properties\<close>

lemma ord_epoch: "ymd2ord 1899 12 30 = 693594"
  by (simp add: ymd2ord_def days_before_year_def days_before_month_def is_leap_def)

lemma ord_2021: "ymd2ord 2021 1 1 = 737791"
  by (simp add: ymd2ord_def days_before_year_def days_before_month_def is_leap_def)

lemma datetime_epoch: "py_datetime 1899 12 30 = Inr (Datetime 693594 0)"
  by (simp add: py_datetime_def days_in_month_def is_leap_def ord_epoch)

lemma add_days_epoch:
  assumes "- 693593 \<le> n" and "n < 2958466"
  shows "add_days (Datetime 693594 0) n = Inr (Datetime (693594 + n) 0)"
  using assms by (simp add: add_days_def)

lemma add_days_before_year_1: "add_days (Datetime 693594 0) (- 693594) = Inl OverflowError"
  by (simp add: add_days_def)

text \<open>\<open>int(str(i))\<close> is \<open>i\<close>.\<close>

lemma nat_of_digits_snoc:
  "nat_of_digits (xs @ [c]) = 10 * nat_of_digits xs + ((of_char c :: nat) - 48)"
  by (simp add: nat_of_digits_def)

lemma digit_char: "k < 10 \<Longrightarrow> (of_char (char_of (48 + k)) :: nat) = 48 + k"
  by simp

lemma dec_digits_props:
  "dec_digits n \<noteq> [] \<and> list_all is_ascii_digit (dec_digits n) \<and> nat_of_digits (dec_digits n) = n"
proof (induction n rule: dec_digits.induct)
  case (1 n)
  show ?case
  proof (cases "n < 10")
    case True
    then show ?thesis
      by (subst (1 2 3) dec_digits.simps) (simp add: is_ascii_digit_def nat_of_digits_def)
  next
    case False
    have "n mod 10 < 10" by simp
    then have c: "(of_char (char_of (48 + n mod 10)) :: nat) = 48 + n mod 10"
      by (rule digit_char)
    from False 1 have ih: "dec_digits (n div 10) \<noteq> []"
      "list_all is_ascii_digit (dec_digits (n div 10))"
      "nat_of_digits (dec_digits (n div 10)) = n div 10" by simp_all
    have eq: "dec_digits n = dec_digits (n div 10) @ [char_of (48 + n mod 10)]"
      using False by (subst dec_digits.simps) simp
    have "n mod 10 \<le> 9" by arith
    with c have d: "is_ascii_digit (char_of (48 + n mod 10))"
      by (simp add: is_ascii_digit_def del: of_char_of)
    show ?thesis
      unfolding eq using ih c d
      by (simp add: nat_of_digits_snoc del: of_char_of)
  qed
qed

lemma minus_not_digit: "\<not> is_ascii_digit CHR ''-''"
  by (simp add: is_ascii_digit_def)

lemma int_str_roundtrip: "py_int_str (py_str_int i) = Inr i"
proof (cases "i < 0")
  case True
  then show ?thesis
    using dec_digits_props [of "nat (- i)"] by (simp add: py_int_str_def py_str_int_def)
next
  case False
  obtain c ds where cd: "dec_digits (nat i) = c # ds"
    using dec_digits_props [of "nat i"] by (cases "dec_digits (nat i)") auto
  have "list_all is_ascii_digit (c # ds)" "nat_of_digits (c # ds) = nat i"
    using dec_digits_props [of "nat i"] cd by simp_all
  moreover from this have "c \<noteq> CHR ''-''" using minus_not_digit by auto
  ultimately show ?thesis
    using False by (simp add: py_int_str_def py_str_int_def cd)
qed

lemma serial_core:
  assumes "py_int_of_float f = Inr n" and "- 693593 \<le> n" and "n < 2958466"
  shows "serial_or_formats strptime fmts (Inr f) =
         Inr (PyDatetime (Datetime (ymd2ord 1899 12 30 + n) 0))"
  using assms
  by (simp add: serial_or_formats_def int_str_roundtrip datetime_epoch add_days_epoch ord_epoch)

lemma serial_core_overflow:
  assumes "py_int_of_float f = Inr (- 693594)"
  shows "serial_or_formats strptime fmts (Inr f) = Inl OverflowError"
  using assms
  by (simp add: serial_or_formats_def int_str_roundtrip datetime_epoch add_days_before_year_1)

lemma pow53_le: "(2::nat) ^ 53 \<le> 2 ^ 1024"
  by (rule power_increasing) simp_all

lemma round_small: "a < 2 ^ 53 \<Longrightarrow> round_to_double a = a"
  by (simp add: round_to_double_def)

lemma float_of_small_int:
  assumes "\<bar>n\<bar> < 2958466"
  shows "py_float_of_int n = Inr (Finite (of_int n))"
proof -
  have "nat \<bar>n\<bar> < 2958466" using assms by simp
  also have "(2958466::nat) < 2 ^ 53" by simp
  finally have s: "nat \<bar>n\<bar> < 2 ^ 53" .
  then have "\<not> (2::nat) ^ 1024 \<le> nat \<bar>n\<bar>" using pow53_le by linarith
  moreover have "sgn n * int (nat \<bar>n\<bar>) = n" by (simp add: mult_sgn_abs)
  ultimately show ?thesis
    by (simp add: py_float_of_int_def round_small [OF s] Let_def)
qed

lemma float_of_small_digits:
  assumes "list_all is_ascii_digit s" and "nat_of_digits s < 2958466"
  shows "py_float_of_digits s = Inr (Finite (of_nat (nat_of_digits s)))"
proof -
  have "(2958466::nat) < 2 ^ 53" by simp
  with assms(2) have s: "nat_of_digits s < 2 ^ 53" by linarith
  then have "\<not> (2::nat) ^ 1024 \<le> nat_of_digits s" using pow53_le by linarith
  then show ?thesis
    using assms(1) by (simp add: py_float_of_digits_def round_small [OF s] Let_def)
qed

lemma int_of_float_of_int: "py_int_of_float (Finite (of_int n)) = Inr n"
  by (simp add: py_int_of_float_def)

lemma int_of_float_of_nat: "py_int_of_float (Finite (of_nat m)) = Inr (int m)"
  by (simp add: py_int_of_float_def)

lemma digits_not_null: "list_all is_ascii_digit s \<Longrightarrow> s \<noteq> ''NaN'' \<and> s \<noteq> ''NaT''"
  by (auto simp: is_ascii_digit_def)

lemma ascii_digits_isdigit: "s \<noteq> [] \<Longrightarrow> list_all is_ascii_digit s \<Longrightarrow> py_isdigit s"
  by (auto simp: py_isdigit_def list_all_iff)

text \<open>
  C3, amended. For an int, a finite float or a string of decimal digits whose integer
  value \<open>n\<close> is below 2958466 and at least \<open>- 693593\<close> (the serial of 0001-01-01, the
  first date of \<open>datetime\<close>), the parser returns 1899-12-30 plus \<open>n\<close> days, whatever
  the formats; the serial 44197 gives 2021-01-01.
\<close>

theorem serial_dates:
  assumes "serial_value v = Some n" and "- 693593 \<le> n" and "n < 2958466"
  shows "fn_parse_dates_multipleformats strptime fmts v =
         Inr (PyDatetime (Datetime (ymd2ord 1899 12 30 + n) 0))"
proof (cases v)
  case (PyInt k)
  with assms have k: "k = n" "\<bar>k\<bar> < 2958466" by auto
  show ?thesis
    using assms(2,3) k
    by (simp add: PyInt float_of_small_int serial_core [OF int_of_float_of_int])
next
  case (PyFloat f)
  with assms(1) obtain q where f: "f = Finite q" by (cases f) auto
  with PyFloat assms(1) have "py_int_of_float f = Inr n"
    by (simp add: py_int_of_float_def)
  from serial_core [OF this assms(2,3)] show ?thesis
    by (simp add: PyFloat f)
next
  case (PyStr s)
  with assms(1) have s: "s \<noteq> []" "list_all is_ascii_digit s" "int (nat_of_digits s) = n"
    by (auto split: if_splits)
  with assms(3) have small: "nat_of_digits s < 2958466" by linarith
  have "py_int_of_float (Finite (of_nat (nat_of_digits s))) = Inr n"
    using s(3) by (simp add: int_of_float_of_nat)
  from serial_core [OF this assms(2,3)] show ?thesis
    using s digits_not_null [OF s(2)] ascii_digits_isdigit [OF s(1,2)]
    by (simp add: PyStr float_of_small_digits [OF s(2) small])
qed (use assms(1) in simp_all)

theorem serial_dates_witness:
  "serial_value (PyInt 44197) = Some 44197 \<and>
   fn_parse_dates_multipleformats no_format [] (PyInt 44197) =
     Inr (PyDatetime (Datetime (ymd2ord 2021 1 1) 0)) \<and>
   serial_value (PyStr ''44197'') = Some 44197 \<and>
   fn_parse_dates_multipleformats no_format [] (PyStr ''44197'') =
     Inr (PyDatetime (Datetime (ymd2ord 2021 1 1) 0))"
proof -
  have a: "serial_value (PyInt 44197) = Some 44197" by simp
  have b: "serial_value (PyStr ''44197'') = Some 44197"
    by (simp add: is_ascii_digit_def nat_of_digits_def)
  have c: "ymd2ord 1899 12 30 + 44197 = ymd2ord 2021 1 1"
    by (simp add: ord_epoch ord_2021)
  from serial_dates [OF a, of no_format "[]"] serial_dates [OF b, of no_format "[]"] a b c
  show ?thesis by simp
qed

text \<open>
  C3, as stated, fails for an integer below the boundary that is too far in the past:
  1899-12-30 minus 693594 days is before 0001-01-01 and the sum raises
  \<open>OverflowError\<close>.
\<close>

theorem serial_before_year_1_counterexample:
  "serial_value (PyInt (- 693594)) = Some (- 693594) \<and> (- 693594 :: int) < 2958466 \<and>
   fn_parse_dates_multipleformats no_format [] (PyInt (- 693594)) = Inl OverflowError"
proof -
  have "py_int_of_float (Finite (- 693594)) = Inr (- 693594)"
    using int_of_float_of_int [of "- 693594"] by simp
  from serial_core_overflow [OF this, of no_format "[]"] show ?thesis
    by (simp add: float_of_small_int)
qed

lemmas month_eval = month_repl_def dic_month_map_def ignorecase_eq_def py_lower_char_def
  py_upper_def char_of_def bit_0

lemma runs_aou: "runs ''12 Aou 2022'' = [''12'', '' '', ''Aou'', '' '', ''2022'']"
  by (simp add: py_isword_def)

lemma runs_dec: "runs ''31-Dec-2024'' = [''31'', ''-'', ''Dec'', ''-'', ''2024'']"
  by (simp add: py_isword_def)

lemma repl_12: "month_repl ''12'' = Inr ''12''"
  by (simp add: month_eval)

lemma repl_space: "month_repl '' '' = Inr '' ''"
  by (simp add: month_eval)

lemma repl_aou: "month_repl ''Aou'' = Inl KeyError"
  by (simp add: month_eval)

lemma repl_31: "month_repl ''31'' = Inr ''31''"
  by (simp add: month_eval)

lemma repl_dash: "month_repl ''-'' = Inr ''-''"
  by (simp add: month_eval)

lemma repl_dec: "month_repl ''Dec'' = Inr ''12''"
  by (simp add: month_eval)

lemma repl_2024: "month_repl ''2024'' = Inr ''2024''"
  by (simp add: month_eval)

lemma replace_months_aou: "fn_replace_months ''12 Aou 2022'' = Inl KeyError"
  unfolding fn_replace_months_def runs_aou
  by (simp add: repl_12 repl_space repl_aou)

lemma replace_months_dec: "fn_replace_months ''31-Dec-2024'' = Inr ''31-12-2024''"
  unfolding fn_replace_months_def runs_dec
  by (simp add: repl_31 repl_dash repl_dec repl_2024)

lemma try_no_format: "try_formats no_format fmts s = PyStr s"
  by (induction fmts) (simp_all add: no_format_def)

text \<open>
  C4. The parser does raise, and when no format parses it does not return the raw value:
  \<open>12 Aou 2022\<close> matches the key \<open>Aou\<close> of \<open>dic_month_map\<close> but the table has no
  key \<open>AOU\<close>, so the lookup of line 1249 raises \<open>KeyError\<close>; the integer
  \<open>- 693594\<close> raises \<open>OverflowError\<close> at line 1265; and \<open>31-Dec-2024\<close>, when no
  format parses it, comes back as \<open>31-12-2024\<close>, the string after the substitution of
  the month names.
\<close>

theorem parser_raises_and_rewrites:
  "fn_parse_dates_multipleformats strptime fmts (PyStr ''12 Aou 2022'') = Inl KeyError \<and>
   fn_parse_dates_multipleformats strptime fmts (PyInt (- 693594)) = Inl OverflowError \<and>
   fn_parse_dates_multipleformats no_format fmts (PyStr ''31-Dec-2024'') = Inr (PyStr ''31-12-2024'')"
proof (intro conjI)
  show "fn_parse_dates_multipleformats strptime fmts (PyStr ''12 Aou 2022'') = Inl KeyError"
    by (simp add: py_isdigit_def is_ascii_digit_def parse_with_formats_def replace_months_aou)
  have "py_int_of_float (Finite (- 693594)) = Inr (- 693594)"
    using int_of_float_of_int [of "- 693594"] by simp
  from serial_core_overflow [OF this, of strptime fmts]
  show "fn_parse_dates_multipleformats strptime fmts (PyInt (- 693594)) = Inl OverflowError"
    by (simp add: float_of_small_int)
  show "fn_parse_dates_multipleformats no_format fmts (PyStr ''31-Dec-2024'') = Inr (PyStr ''31-12-2024'')"
    by (simp add: py_isdigit_def is_ascii_digit_def parse_with_formats_def replace_months_dec
        try_no_format)
qed

section \<open>Schema Matcher: properties\<close>

lemmas norm_eval = normalize_def py_upper_def py_strip_def py_isspace_def char_of_def bit_0

lemma ex_headers:
  "lst_currentheaders (snd (ex_original ! 0)) = [''INVOICE NO'', ''DATE'']"
  "lst_currentheaders (snd (ex_original ! 1)) = [''DATE'', ''AMOUNT'', ''REF'']"
  by (simp_all add: ex_original_def lst_currentheaders_def norm_eval)

lemma ex_rows:
  "lst_mycurrentrow ex_sheet 0 = [''REPORT'', ''INVOICE NO'', ''DATE'']"
  "lst_mycurrentrow ex_sheet 1 = [''DATE'', ''AMOUNT'', ''REF'']"
  by (simp_all add: ex_sheet_def lst_mycurrentrow_def norm_eval)

lemma ex_unknown_row: "lst_mycurrentrow ex_unknown_sheet 0 = [''NAME'', ''TOTAL'']"
  by (simp add: ex_unknown_sheet_def lst_mycurrentrow_def norm_eval)


lemma scan_filetypes_find: "scan_filetypes P js = find P js"
  by (induction js) simp_all

lemma scan_filetypes_upt_Some:
  "scan_filetypes P [0..<n] = Some j \<longleftrightarrow> j < n \<and> P j \<and> (\<forall>j'<j. \<not> P j')"
  by (auto simp: scan_filetypes_find find_Some_iff)

lemma scan_filetypes_upt_None:
  "scan_filetypes P [0..<n] = None \<longleftrightarrow> (\<forall>j<n. \<not> P j)"
  by (auto simp: scan_filetypes_find find_None_iff)

lemma scan_rows_None:
  "scan_rows P is js = None \<longleftrightarrow> (\<forall>i\<in>set is. scan_filetypes (P i) js = None)"
  by (induction "is") (auto split: option.splits)

lemma scan_rows_Some:
  "scan_rows P is js = Some (i, j) \<longleftrightarrow>
     (\<exists>k<length is. is ! k = i \<and> scan_filetypes (P i) js = Some j \<and>
        (\<forall>k'<k. scan_filetypes (P (is ! k')) js = None))"
proof (induction "is")
  case Nil
  then show ?case by simp
next
  case (Cons a "is")
  show ?case
  proof (cases "scan_filetypes (P a) js")
    case None
    have "(\<exists>k<length (a # is). (a # is) ! k = i \<and> scan_filetypes (P i) js = Some j \<and>
              (\<forall>k'<k. scan_filetypes (P ((a # is) ! k')) js = None))
          \<longleftrightarrow> (\<exists>k<length is. is ! k = i \<and> scan_filetypes (P i) js = Some j \<and>
              (\<forall>k'<k. scan_filetypes (P (is ! k')) js = None))" (is "?L \<longleftrightarrow> ?R")
    proof
      assume ?L
      then obtain k where k: "k < length (a # is)" "(a # is) ! k = i"
        "scan_filetypes (P i) js = Some j"
        "\<forall>k'<k. scan_filetypes (P ((a # is) ! k')) js = None" by blast
      with None obtain k2 where k2: "k = Suc k2" by (cases k) auto
      have "\<forall>k'<k2. scan_filetypes (P (is ! k')) js = None"
      proof (intro allI impI)
        fix k' assume "k' < k2"
        then have "Suc k' < k" using k2 by simp
        with k(4) have "scan_filetypes (P ((a # is) ! Suc k')) js = None" by blast
        then show "scan_filetypes (P (is ! k')) js = None" by simp
      qed
      with k k2 show ?R by auto
    next
      assume ?R
      then obtain k where k: "k < length is" "is ! k = i" "scan_filetypes (P i) js = Some j"
        "\<forall>k'<k. scan_filetypes (P (is ! k')) js = None" by blast
      have "\<forall>k'<Suc k. scan_filetypes (P ((a # is) ! k')) js = None"
      proof (intro allI impI)
        fix k' assume "k' < Suc k"
        then show "scan_filetypes (P ((a # is) ! k')) js = None"
          using None k(4) by (cases k') auto
      qed
      with k show ?L by (intro exI [of _ "Suc k"]) simp
    qed
    with None Cons show ?thesis by simp
  next
    case (Some j0)
    have "(\<exists>k<length (a # is). (a # is) ! k = i \<and> scan_filetypes (P i) js = Some j \<and>
              (\<forall>k'<k. scan_filetypes (P ((a # is) ! k')) js = None))
          \<longleftrightarrow> (a = i \<and> j0 = j)" (is "?L \<longleftrightarrow> ?R")
    proof
      assume ?L
      then obtain k where k: "k < length (a # is)" "(a # is) ! k = i"
        "scan_filetypes (P i) js = Some j"
        "\<forall>k'<k. scan_filetypes (P ((a # is) ! k')) js = None" by blast
      have "k = 0"
      proof (rule ccontr)
        assume "k \<noteq> 0"
        then have "0 < k" by simp
        with k(4) have "scan_filetypes (P ((a # is) ! 0)) js = None" by blast
        with Some show False by simp
      qed
      with k Some show ?R by simp
    next
      assume ?R
      with Some show ?L by (intro exI [of _ 0]) simp
    qed
    with Some show ?thesis by auto
  qed
qed

lemma scan_rows_upt_Some:
  "scan_rows P [0..<m] [0..<n] = Some (i, j) \<longleftrightarrow>
     i < m \<and> j < n \<and> P i j \<and> (\<forall>i' j'. i' < m \<and> j' < n \<and> earlier i' j' i j \<longrightarrow> \<not> P i' j')"
  (is "?L \<longleftrightarrow> ?R")
proof
  assume ?L
  then obtain k where k: "k < m" "[0..<m] ! k = i" "scan_filetypes (P i) [0..<n] = Some j"
      "\<forall>k'<k. scan_filetypes (P ([0..<m] ! k')) [0..<n] = None"
    by (auto simp: scan_rows_Some)
  then have ki: "k = i" by simp
  have prev: "\<forall>i'<i. \<forall>j'<n. \<not> P i' j'"
  proof (intro allI impI)
    fix i' j' assume a: "i' < i" "j' < n"
    with k(1,4) ki have "scan_filetypes (P ([0..<m] ! i')) [0..<n] = None" by blast
    moreover have "[0..<m] ! i' = i'" using a(1) k(1) ki by simp
    ultimately show "\<not> P i' j'" using a(2) by (simp add: scan_filetypes_upt_None)
  qed
  from k(3) have j: "j < n" "P i j" "\<forall>j'<j. \<not> P i j'"
    by (simp_all add: scan_filetypes_upt_Some)
  show ?R using k(1) ki j prev by (auto simp: earlier_def)
next
  assume r: ?R
  have a: "scan_filetypes (P i) [0..<n] = Some j"
    using r by (auto simp: scan_filetypes_upt_Some earlier_def)
  have b: "\<forall>k'<i. scan_filetypes (P ([0..<m] ! k')) [0..<n] = None"
  proof (intro allI impI)
    fix k' assume "k' < i"
    moreover from this r have "[0..<m] ! k' = k'" by simp
    ultimately show "scan_filetypes (P ([0..<m] ! k')) [0..<n] = None"
      using r by (auto simp: scan_filetypes_upt_None earlier_def)
  qed
  show ?L
    unfolding scan_rows_Some using r a b by (intro exI [of _ i]) simp
qed

lemma scan_rows_upt_None:
  "scan_rows P [0..<m] [0..<n] = None \<longleftrightarrow> (\<forall>i<m. \<forall>j<n. \<not> P i j)"
  by (auto simp: scan_rows_None scan_filetypes_upt_None)

lemma ex_headers_Suc:
  "lst_currentheaders (snd (ex_original ! Suc 0)) = [''DATE'', ''AMOUNT'', ''REF'']"
  using ex_headers(2) by simp

lemma ex_rows_Suc:
  "lst_mycurrentrow ex_sheet (Suc 0) = [''DATE'', ''AMOUNT'', ''REF'']"
  using ex_rows(2) by simp

lemma ex_subset_row: "lst_mycurrentrow ex_subset_sheet 0 = [''REPORT'', ''INVOICE NO'', ''DATE'']"
  by (simp add: ex_subset_sheet_def lst_mycurrentrow_def norm_eval)

lemma two_cases: "j < (2::nat) \<longleftrightarrow> j = 0 \<or> j = 1"
  by auto

lemma not_subset_by: "x \<in> set A \<Longrightarrow> x \<notin> set B \<Longrightarrow> \<not> set A \<subseteq> set B"
  by blast

lemma not_eq_by: "x \<in> set A \<Longrightarrow> x \<notin> set B \<Longrightarrow> set A \<noteq> set B \<and> set B \<noteq> set A"
  by blast

lemma ex_exact_00: "\<not> exact_match ex_original ex_sheet 0 0"
  unfolding exact_match_def ex_headers ex_rows
  using not_eq_by [of "''REPORT''" "[''REPORT'', ''INVOICE NO'', ''DATE'']" "[''INVOICE NO'', ''DATE'']"]
  by simp

lemma ex_exact_01: "\<not> exact_match ex_original ex_sheet 0 1"
  unfolding exact_match_def ex_headers ex_rows
  using not_eq_by [of "''REPORT''" "[''REPORT'', ''INVOICE NO'', ''DATE'']" "[''DATE'', ''AMOUNT'', ''REF'']"]
  by simp

lemma ex_exact_10: "\<not> exact_match ex_original ex_sheet 1 0"
  unfolding exact_match_def ex_headers ex_rows
  using not_eq_by [of "''REF''" "[''DATE'', ''AMOUNT'', ''REF'']" "[''INVOICE NO'', ''DATE'']"]
  by simp

lemma ex_exact_11: "exact_match ex_original ex_sheet 1 1"
  unfolding exact_match_def ex_headers ex_rows by (rule refl)


lemma ex_sub_exact_00: "\<not> exact_match ex_original ex_subset_sheet 0 0"
  unfolding exact_match_def ex_headers ex_subset_row
  using not_eq_by [of "''REPORT''" "[''REPORT'', ''INVOICE NO'', ''DATE'']" "[''INVOICE NO'', ''DATE'']"]
  by simp

lemma ex_sub_exact_01: "\<not> exact_match ex_original ex_subset_sheet 0 1"
  unfolding exact_match_def ex_headers ex_subset_row
  using not_eq_by [of "''REPORT''" "[''REPORT'', ''INVOICE NO'', ''DATE'']" "[''DATE'', ''AMOUNT'', ''REF'']"]
  by simp

lemma ex_sub_subset_00: "subset_match ex_original ex_subset_sheet 0 0"
  unfolding subset_match_def ex_headers ex_subset_row by simp

lemma ex_unknown_00: "\<not> subset_match ex_original ex_unknown_sheet 0 0"
  unfolding subset_match_def ex_headers ex_unknown_row
  by (rule not_subset_by [of "''DATE''"]) simp_all

lemma ex_unknown_01: "\<not> subset_match ex_original ex_unknown_sheet 0 1"
  unfolding subset_match_def ex_headers ex_unknown_row
  by (rule not_subset_by [of "''DATE''"]) simp_all

lemma ex_matched_bank:
  "matched ex_original ex_findap ex_sheet 1 1 =
     Inr (''BANK V1'', Some 1, [''DATE'', ''AMOUNT'', ''REF''], [0, 1, 2],
          [''TRANSACTION DATE'', ''AMOUNT'', ''REFERENCE''])"
  unfolding matched_def ex_headers ex_rows Let_def
  by (simp add: ex_original_def ex_findap_def upt_rec)

lemma ex_matched_sales:
  "matched ex_original ex_findap ex_subset_sheet 0 0 =
     Inr (''SALES V1'', Some 0, [''INVOICE NO'', ''DATE''], [1, 2],
          [''INVOICE NUMBER'', ''TRANSACTION DATE''])"
  unfolding matched_def ex_headers ex_subset_row Let_def
  by (simp add: ex_original_def ex_findap_def upt_rec)

lemma ex_lengths:
  "length ex_original = 2" "length ex_sheet = 2" "length ex_subset_sheet = 1"
  "length ex_unknown_sheet = 1"
  by (simp_all add: ex_original_def ex_sheet_def ex_subset_sheet_def ex_unknown_sheet_def)

lemma ex_unknown_none:
  "\<forall>i j. i < min 1 (25::nat) \<and> j < (2::nat) \<longrightarrow> \<not> subset_match ex_original ex_unknown_sheet i j"
proof (intro allI impI)
  fix i j :: nat assume "i < min 1 25 \<and> j < 2"
  then have "i = 0" "j = 0 \<or> j = 1" by auto
  then show "\<not> subset_match ex_original ex_unknown_sheet i j"
    using ex_unknown_00 ex_unknown_01 by auto
qed

text \<open>
  C2, amended. With \<open>m = min (len(sheet), max_iterations)\<close> (25 by default) and the
  pairs (row, file type) taken by rows and, within a row, in the order of the table:
  the result is that of the first pair whose normalized non-empty headers are, as a set,
  the normalized cells of the row; when no pair of the \<open>m\<close> rows is such an exact
  match, that of the first pair whose set of headers is a subset of the cells of the row;
  and when there is none either, \<open>UNKNOWN\<close> with no header row (\<open>None\<close>) and
  empty lists. The caller then goes on with header row 0.
\<close>

theorem schema_matcher_passes:
  "(let m = min (length df_mydf) max_iterations;
        n = length original;
        r = fn_find_matching_category original findap df_mydf max_iterations
    in (\<forall>i j. i < m \<and> j < n \<and> exact_match original df_mydf i j \<and>
              (\<forall>i' j'. i' < m \<and> j' < n \<and> earlier i' j' i j \<longrightarrow> \<not> exact_match original df_mydf i' j')
            \<longrightarrow> r = matched original findap df_mydf i j) \<and>
       ((\<forall>i j. i < m \<and> j < n \<longrightarrow> \<not> exact_match original df_mydf i j) \<longrightarrow>
          (\<forall>i j. i < m \<and> j < n \<and> subset_match original df_mydf i j \<and>
              (\<forall>i' j'. i' < m \<and> j' < n \<and> earlier i' j' i j \<longrightarrow> \<not> subset_match original df_mydf i' j')
            \<longrightarrow> r = matched original findap df_mydf i j)) \<and>
       ((\<forall>i j. i < m \<and> j < n \<longrightarrow> \<not> subset_match original df_mydf i j) \<longrightarrow>
          r = Inr (''UNKNOWN'', None, [], [], []) \<and>
          caller_header_row (''UNKNOWN'', None, [], [], []) = Some 0))"
proof -
  define m where "m = min (length df_mydf) max_iterations"
  define n where "n = length original"
  define r where "r = fn_find_matching_category original findap df_mydf max_iterations"
  have r: "r = (case scan_rows (exact_match original df_mydf) [0..<m] [0..<n] of
           Some (i, j) \<Rightarrow> matched original findap df_mydf i j
         | None \<Rightarrow>
            (case scan_rows (subset_match original df_mydf) [0..<m] [0..<n] of
               Some (i, j) \<Rightarrow> matched original findap df_mydf i j
             | None \<Rightarrow> Inr (''UNKNOWN'', None, [], [], [])))"
    unfolding r_def fn_find_matching_category_def m_def n_def Let_def by (rule refl)
  have A: "r = matched original findap df_mydf i j"
    if "i < m \<and> j < n \<and> exact_match original df_mydf i j \<and>
        (\<forall>i' j'. i' < m \<and> j' < n \<and> earlier i' j' i j \<longrightarrow> \<not> exact_match original df_mydf i' j')"
    for i j
  proof -
    from that have "scan_rows (exact_match original df_mydf) [0..<m] [0..<n] = Some (i, j)"
      unfolding scan_rows_upt_Some by blast
    then show ?thesis by (simp add: r)
  qed
  have B: "r = matched original findap df_mydf i j"
    if none: "\<forall>i j. i < m \<and> j < n \<longrightarrow> \<not> exact_match original df_mydf i j"
    and "i < m \<and> j < n \<and> subset_match original df_mydf i j \<and>
        (\<forall>i' j'. i' < m \<and> j' < n \<and> earlier i' j' i j \<longrightarrow> \<not> subset_match original df_mydf i' j')"
    for i j
  proof -
    from none have "scan_rows (exact_match original df_mydf) [0..<m] [0..<n] = None"
      by (simp add: scan_rows_upt_None)
    moreover from that(2) have "scan_rows (subset_match original df_mydf) [0..<m] [0..<n] = Some (i, j)"
      unfolding scan_rows_upt_Some by blast
    ultimately show ?thesis by (simp add: r)
  qed
  have C: "r = Inr (''UNKNOWN'', None, [], [], [])"
    if none: "\<forall>i j. i < m \<and> j < n \<longrightarrow> \<not> subset_match original df_mydf i j"
  proof -
    from none have "\<forall>i j. i < m \<and> j < n \<longrightarrow> \<not> exact_match original df_mydf i j"
      by (auto simp: exact_match_def subset_match_def)
    then have "scan_rows (exact_match original df_mydf) [0..<m] [0..<n] = None"
      by (simp add: scan_rows_upt_None)
    moreover from none have "scan_rows (subset_match original df_mydf) [0..<m] [0..<n] = None"
      by (simp add: scan_rows_upt_None)
    ultimately show ?thesis by (simp add: r)
  qed
  have D: "caller_header_row (''UNKNOWN'', None, [], [], []) = Some 0"
    by (simp add: caller_header_row_def py_upper_def)
  show ?thesis
    unfolding Let_def m_def [symmetric] n_def [symmetric] r_def [symmetric]
    using A B C D by blast
qed

text \<open>
  C2, as stated, fails in its last part: for a sheet that matches no file type the header
  row of the result is \<open>None\<close>, not 0.
\<close>

theorem schema_matcher_unknown_counterexample:
  "fn_find_matching_category ex_original ex_findap ex_unknown_sheet 25 =
     Inr (''UNKNOWN'', None, [], [], []) \<and>
   fn_find_matching_category ex_original ex_findap ex_unknown_sheet 25 \<noteq>
     Inr (''UNKNOWN'', Some 0, [], [], [])"
proof -
  have s: "scan_rows (subset_match ex_original ex_unknown_sheet) [0..<min 1 25] [0..<2] = None"
    unfolding scan_rows_upt_None using ex_unknown_none by blast
  have "\<forall>i j. i < min 1 (25::nat) \<and> j < (2::nat) \<longrightarrow> \<not> exact_match ex_original ex_unknown_sheet i j"
    using ex_unknown_none by (auto simp: exact_match_def subset_match_def)
  then have e: "scan_rows (exact_match ex_original ex_unknown_sheet) [0..<min 1 25] [0..<2] = None"
    unfolding scan_rows_upt_None by blast
  have "fn_find_matching_category ex_original ex_findap ex_unknown_sheet 25 =
     Inr (''UNKNOWN'', None, [], [], [])"
    unfolding fn_find_matching_category_def Let_def ex_lengths s e by simp
  then show ?thesis by simp
qed

theorem schema_matcher_passes_witness:
  "fn_find_matching_category ex_original ex_findap ex_sheet 25 =
     Inr (''BANK V1'', Some 1, [''DATE'', ''AMOUNT'', ''REF''], [0, 1, 2],
          [''TRANSACTION DATE'', ''AMOUNT'', ''REFERENCE'']) \<and>
   fn_find_matching_category ex_original ex_findap ex_subset_sheet 25 =
     Inr (''SALES V1'', Some 0, [''INVOICE NO'', ''DATE''], [1, 2],
          [''INVOICE NUMBER'', ''TRANSACTION DATE'']) \<and>
   fn_find_matching_category ex_original ex_findap ex_unknown_sheet 25 =
     Inr (''UNKNOWN'', None, [], [], []) \<and>
   caller_header_row (''UNKNOWN'', None, [], [], []) = Some 0"
proof -
  note T1 = schema_matcher_passes [where original = ex_original and findap = ex_findap
      and df_mydf = ex_sheet and max_iterations = 25, unfolded Let_def ex_lengths]
  note T2 = schema_matcher_passes [where original = ex_original and findap = ex_findap
      and df_mydf = ex_subset_sheet and max_iterations = 25, unfolded Let_def ex_lengths]
  note T3 = schema_matcher_passes [where original = ex_original and findap = ex_findap
      and df_mydf = ex_unknown_sheet and max_iterations = 25, unfolded Let_def ex_lengths]
  have e1: "\<forall>i' j'. i' < min 2 (25::nat) \<and> j' < (2::nat) \<and> earlier i' j' 1 1 \<longrightarrow>
              \<not> exact_match ex_original ex_sheet i' j'"
  proof (intro allI impI)
    fix i' j' :: nat assume a: "i' < min 2 25 \<and> j' < 2 \<and> earlier i' j' 1 1"
    then have "(i' = 0 \<and> j' = 0) \<or> (i' = 0 \<and> j' = 1) \<or> (i' = 1 \<and> j' = 0)"
      by (auto simp: earlier_def)
    then show "\<not> exact_match ex_original ex_sheet i' j'"
      using ex_exact_00 ex_exact_01 ex_exact_10 by auto
  qed
  have h1: "1 < min 2 (25::nat) \<and> 1 < (2::nat) \<and> exact_match ex_original ex_sheet 1 1 \<and>
      (\<forall>i' j'. i' < min 2 25 \<and> j' < 2 \<and> earlier i' j' 1 1 \<longrightarrow> \<not> exact_match ex_original ex_sheet i' j')"
    using ex_exact_11 e1 by simp
  have A: "fn_find_matching_category ex_original ex_findap ex_sheet 25 =
      matched ex_original ex_findap ex_sheet 1 1"
    using T1 [THEN conjunct1, THEN spec, THEN spec, THEN mp, OF h1] .
  have h2a: "\<forall>i j. i < min 1 (25::nat) \<and> j < (2::nat) \<longrightarrow> \<not> exact_match ex_original ex_subset_sheet i j"
  proof (intro allI impI)
    fix i j :: nat assume "i < min 1 25 \<and> j < 2"
    then have "i = 0" "j = 0 \<or> j = 1" by auto
    then show "\<not> exact_match ex_original ex_subset_sheet i j"
      using ex_sub_exact_00 ex_sub_exact_01 by auto
  qed
  have h2b: "0 < min 1 (25::nat) \<and> 0 < (2::nat) \<and> subset_match ex_original ex_subset_sheet 0 0 \<and>
      (\<forall>i' j'. i' < min 1 25 \<and> j' < 2 \<and> earlier i' j' 0 0 \<longrightarrow> \<not> subset_match ex_original ex_subset_sheet i' j')"
    using ex_sub_subset_00 by (simp add: earlier_def)
  have B: "fn_find_matching_category ex_original ex_findap ex_subset_sheet 25 =
      matched ex_original ex_findap ex_subset_sheet 0 0"
    using T2 [THEN conjunct2, THEN conjunct1, THEN mp, OF h2a, THEN spec, THEN spec, THEN mp, OF h2b] .
  note C = T3 [THEN conjunct2, THEN conjunct2, THEN mp, OF ex_unknown_none]
  show ?thesis
    using A [unfolded ex_matched_bank] B [unfolded ex_matched_sales] C by simp
qed

section \<open>Yearly summary: properties\<close>










lemma fold_min_Min: "xs \<noteq> [] \<Longrightarrow> fold min (tl xs) (hd xs) = Min (set xs)"
  by (cases xs) (simp_all add: Min.set_eq_fold [symmetric])

lemma fold_max_Max: "xs \<noteq> [] \<Longrightarrow> fold max (tl xs) (hd xs) = Max (set xs)"
  by (cases xs) (simp_all add: Max.set_eq_fold [symmetric])

lemma get_date_range_min_max:
  "get_date_range to_datetime strftime d =
     (case find (\<lambda>col. py_strip (py_upper col) = ''TRANSACTION DATE'') (columns d) of
        None \<Rightarrow> (''N/A'', ''N/A'')
      | Some date_col \<Rightarrow>
          (let valid_dates = List.map_filter to_datetime (column_values d date_col)
           in if valid_dates = [] then (''N/A'', ''N/A'')
              else (strftime (Min (set valid_dates)), strftime (Max (set valid_dates)))))"
  by (simp add: get_date_range_def Let_def fold_min_Min fold_max_Max split: option.splits)










end
